theory Spec2Isabelle
  imports Main "HOL-Library.Word"
begin

section \<open>ReviewGuardFHE: the contract of contracts/review\_guard\_fhe.sol\<close>

text \<open>
  The contract keeps three Solidity mappings. A mapping is total: a key that was never
  written reads as the all-zero value of its type, so each mapping is a total function
  and the fresh contract maps every key to the zero value. Unsigned integers are words
  of their width; arithmetic of Solidity 0.8 is checked, an overflow reverts the call.
  A \<open>string\<close> of Solidity is a sequence of bytes, as a \<open>char list\<close> is here.
\<close>

subsection \<open>Types\<close>

type_synonym uint256 = "256 word"
type_synonym uint32 = "32 word"
type_synonym address = "160 word"
type_synonym bytes = "8 word list"

text \<open>An \<open>euint32\<close> and an \<open>externalEuint32\<close> are \<open>bytes32\<close> handles.\<close>

type_synonym euint32 = "256 word"
type_synonym externalEuint32 = "256 word"

text \<open>
  Struct \<open>Review\<close>. Its field \<open>departmentId\<close> is \<open>reviewDepartmentId\<close> here, since
  struct \<open>Employee\<close> has a field of the same name.
\<close>

record Review =
  encryptedScore :: euint32
  weight :: uint256
  reviewDepartmentId :: uint256
  reviewer :: address
  timestamp :: uint256
  decryptedScore :: uint32
  isVerified :: bool

record Employee =
  employeeId :: string
  name :: string
  totalScore :: uint256
  reviewCount :: uint256
  departmentId :: uint256
  reviews :: "string \<Rightarrow> Review"

text \<open>The storage of the contract.\<close>

record contract =
  employees :: "string \<Rightarrow> Employee"
  departmentEmployees :: "uint256 \<Rightarrow> string list"
  employeeExists :: "string \<Rightarrow> bool"

text \<open>
  The reverts of the contract. Each \<open>require\<close> message of the source is one error, named
  as the specification names it:
  \<^item> \<open>NotFound\<close>: "Employee does not exist";
  \<^item> \<open>AlreadyExists\<close>: "Employee already exists";
  \<^item> \<open>InvalidInput\<close>: "Weight must be positive";
  \<^item> \<open>InvalidProof\<close>: "Invalid encrypted input", and every revert raised inside
    \<open>FHE.fromExternal\<close> or \<open>FHE.checkSignatures\<close>;
  \<^item> \<open>DepartmentMismatch\<close>: "Department mismatch";
  \<^item> \<open>AlreadyVerified\<close>: "Review already verified";
  \<^item> \<open>EmptyAggregation\<close>: "No reviews available";
  \<^item> \<open>ArithmeticPanic\<close>: the panic of checked arithmetic on overflow;
  \<^item> \<open>DecodeFailure\<close>: the revert of \<open>abi.decode\<close> on a payload that is no \<open>uint32\<close>.
\<close>

datatype error =
    NotFound
  | AlreadyExists
  | InvalidInput
  | InvalidProof
  | DepartmentMismatch
  | AlreadyVerified
  | EmptyAggregation
  | ArithmeticPanic
  | DecodeFailure

subsection \<open>The FHE library, taken as a parameter\<close>

text \<open>
  The library \<open>@fhevm/solidity\<close> is not part of the repository. Its two verdicts are
  parameters of the model:
  \<^item> \<open>fromExternal h proof sender\<close> is \<open>FHE.fromExternal\<close>: the handle it returns, or
    \<open>None\<close> when the library reverts on the input proof;
  \<^item> \<open>checkSignatures cts clear proof\<close> is \<open>FHE.checkSignatures\<close>: \<open>False\<close> when the
    library reverts on the decryption proof.
  \<open>FHE.allowThis\<close> and \<open>FHE.makePubliclyDecryptable\<close> write the access-control list of
  the library and none of the contract's storage, and the events of the contract are
  logs outside its storage; neither is modelled.
\<close>

record fhe =
  fromExternal :: "externalEuint32 \<Rightarrow> bytes \<Rightarrow> address \<Rightarrow> euint32 option"
  checkSignatures :: "euint32 list \<Rightarrow> bytes \<Rightarrow> bytes \<Rightarrow> bool"

text \<open>\<open>FHE.isInitialized\<close>: the handle is not zero.\<close>

definition isInitialized :: "euint32 \<Rightarrow> bool" where
  "isInitialized h = (h \<noteq> 0)"

subsection \<open>Builtins of Solidity\<close>

text \<open>Checked addition and multiplication of \<open>uint256\<close>: \<open>None\<close> is the panic.\<close>

definition checked_add :: "uint256 \<Rightarrow> uint256 \<Rightarrow> uint256 option" where
  "checked_add a b = (if unat a + unat b < 2 ^ 256 then Some (a + b) else None)"

definition checked_mul :: "uint256 \<Rightarrow> uint256 \<Rightarrow> uint256 option" where
  "checked_mul a b = (if unat a * unat b < 2 ^ 256 then Some (a * b) else None)"

text \<open>The value of a sequence of bytes read big-endian.\<close>

definition be_nat :: "bytes \<Rightarrow> nat" where
  "be_nat bs = foldl (\<lambda>acc b. acc * 256 + unat b) 0 bs"

text \<open>
  \<open>abi.decode(payload, (uint32))\<close>: the first 32 bytes are one big-endian word, which
  must fit 32 bits; a shorter payload or a larger word reverts.
\<close>

definition abi_decode_uint32 :: "bytes \<Rightarrow> uint32 option" where
  "abi_decode_uint32 payload =
     (if length payload < 32 then None
      else if be_nat (take 32 payload) < 2 ^ 32
           then Some (word_of_nat (be_nat (take 32 payload)))
           else None)"

text \<open>
  \<open>abi.encodePacked\<close> of a \<open>uint256\<close>: its 32 bytes, the most significant first.
\<close>

definition encodePacked_uint256 :: "uint256 \<Rightarrow> string" where
  "encodePacked_uint256 v =
     map (\<lambda>i. char_of (unat (drop_bit (8 * (31 - i)) v))) [0..<32]"

text \<open>
  The identifier \<open>submitReview\<close> derives:
  \<open>string(abi.encodePacked(employeeId, "_", uint256(block.timestamp)))\<close>.
\<close>

definition reviewIdOf :: "string \<Rightarrow> uint256 \<Rightarrow> string" where
  "reviewIdOf eid block_timestamp = eid @ ''_'' @ encodePacked_uint256 block_timestamp"

subsection \<open>The fresh contract\<close>

definition zeroReview :: Review where
  "zeroReview = \<lparr>encryptedScore = 0, weight = 0, reviewDepartmentId = 0, reviewer = 0,
     timestamp = 0, decryptedScore = 0, isVerified = False\<rparr>"

definition zeroEmployee :: Employee where
  "zeroEmployee = \<lparr>employeeId = [], name = [], totalScore = 0, reviewCount = 0,
     departmentId = 0, reviews = (\<lambda>_. zeroReview)\<rparr>"

definition init :: contract where
  "init = \<lparr>employees = (\<lambda>_. zeroEmployee), departmentEmployees = (\<lambda>_. []),
     employeeExists = (\<lambda>_. False)\<rparr>"

subsection \<open>The functions of the contract\<close>

text \<open>
  Each function takes the storage and returns the error of its revert, which leaves the
  storage as it was, or the storage after the call. \<open>msg_sender\<close> and \<open>block_timestamp\<close>
  are arguments of the function that reads them.
\<close>

definition submitReview ::
  "fhe \<Rightarrow> address \<Rightarrow> uint256 \<Rightarrow> string \<Rightarrow> externalEuint32 \<Rightarrow> bytes \<Rightarrow> uint256 \<Rightarrow> uint256
     \<Rightarrow> contract \<Rightarrow> error + contract" where
  "submitReview env msg_sender block_timestamp eid extScore inputProof w dept s =
     (if \<not> employeeExists s eid then Inl NotFound
      else if \<not> 0 < w then Inl InvalidInput
      else case fromExternal env extScore inputProof msg_sender of
        None \<Rightarrow> Inl InvalidProof
      | Some h \<Rightarrow>
          if \<not> isInitialized h then Inl InvalidProof
          else if departmentId (employees s eid) \<noteq> dept then Inl DepartmentMismatch
          else
            let employee = employees s eid;
                reviewId = reviewIdOf eid block_timestamp;
                newReview = \<lparr>encryptedScore = h, weight = w, reviewDepartmentId = dept,
                  reviewer = msg_sender, timestamp = block_timestamp,
                  decryptedScore = 0, isVerified = False\<rparr>
            in Inr (s\<lparr>employees := (employees s)
                  (eid := employee\<lparr>reviews := (reviews employee)(reviewId := newReview)\<rparr>)\<rparr>))"

definition verifyReview ::
  "fhe \<Rightarrow> string \<Rightarrow> string \<Rightarrow> bytes \<Rightarrow> bytes \<Rightarrow> contract \<Rightarrow> error + contract" where
  "verifyReview env eid reviewId abiEncodedClearValue decryptionProof s =
     (if \<not> employeeExists s eid then Inl NotFound
      else
        let employee = employees s eid;
            review = reviews employee reviewId
        in
          if isVerified review then Inl AlreadyVerified
          else if \<not> checkSignatures env [encryptedScore review] abiEncodedClearValue
                     decryptionProof
          then Inl InvalidProof
          else case abi_decode_uint32 abiEncodedClearValue of
            None \<Rightarrow> Inl DecodeFailure
          | Some decodedValue \<Rightarrow>
              (case checked_mul (ucast decodedValue) (weight review) of
                None \<Rightarrow> Inl ArithmeticPanic
              | Some product \<Rightarrow>
                  (case checked_add (totalScore employee) product of
                    None \<Rightarrow> Inl ArithmeticPanic
                  | Some newTotal \<Rightarrow>
                      (case checked_add (reviewCount employee) 1 of
                        None \<Rightarrow> Inl ArithmeticPanic
                      | Some newCount \<Rightarrow>
                          Inr (s\<lparr>employees := (employees s)
                            (eid := employee
                              \<lparr>totalScore := newTotal, reviewCount := newCount,
                               reviews := (reviews employee)
                                 (reviewId := review\<lparr>decryptedScore := decodedValue,
                                    isVerified := True\<rparr>)\<rparr>)\<rparr>)))))"

definition calculateFinalScore :: "string \<Rightarrow> contract \<Rightarrow> error + contract" where
  "calculateFinalScore eid s =
     (if \<not> employeeExists s eid then Inl NotFound
      else
        let employee = employees s eid in
          if \<not> 0 < reviewCount employee then Inl EmptyAggregation
          else
            let finalScore = totalScore employee div reviewCount employee
            in Inr (s\<lparr>employees := (employees s)
                  (eid := employee\<lparr>totalScore := finalScore\<rparr>)\<rparr>))"

definition addEmployee :: "string \<Rightarrow> string \<Rightarrow> uint256 \<Rightarrow> contract \<Rightarrow> error + contract" where
  "addEmployee eid nm dept s =
     (if employeeExists s eid then Inl AlreadyExists
      else
        let newEmployee = (employees s eid)
              \<lparr>employeeId := eid, name := nm, totalScore := 0, reviewCount := 0,
               departmentId := dept\<rparr>
        in Inr (s\<lparr>employees := (employees s)(eid := newEmployee),
                  departmentEmployees := (departmentEmployees s)
                    (dept := departmentEmployees s dept @ [eid]),
                  employeeExists := (employeeExists s)(eid := True)\<rparr>))"

definition getEmployee ::
  "string \<Rightarrow> contract \<Rightarrow> error + (string \<times> uint256 \<times> uint256 \<times> uint256)" where
  "getEmployee eid s =
     (if \<not> employeeExists s eid then Inl NotFound
      else
        let employee = employees s eid
        in Inr (name employee, totalScore employee, reviewCount employee,
                departmentId employee))"

definition getReview ::
  "string \<Rightarrow> string \<Rightarrow> contract
     \<Rightarrow> error + (uint256 \<times> uint256 \<times> address \<times> uint256 \<times> uint32 \<times> bool)" where
  "getReview eid reviewId s =
     (if \<not> employeeExists s eid then Inl NotFound
      else
        let review = reviews (employees s eid) reviewId
        in Inr (weight review, reviewDepartmentId review, reviewer review,
                timestamp review, decryptedScore review, isVerified review))"

definition getDepartmentEmployees :: "uint256 \<Rightarrow> contract \<Rightarrow> string list" where
  "getDepartmentEmployees dept s = departmentEmployees s dept"

subsection \<open>Sequences of calls\<close>

text \<open>
  The calls that write storage, each with the transaction context it reads. A call that
  reverts leaves the storage as it was, and the next call runs on it.
\<close>

datatype call =
    AddEmployee string string uint256
  | SubmitReview address uint256 string externalEuint32 bytes uint256 uint256
  | VerifyReview string string bytes bytes
  | CalculateFinalScore string

fun exec :: "fhe \<Rightarrow> call \<Rightarrow> contract \<Rightarrow> error + contract" where
  "exec env (AddEmployee eid nm dept) s = addEmployee eid nm dept s"
| "exec env (SubmitReview sender ts eid ext pf w dept) s =
     submitReview env sender ts eid ext pf w dept s"
| "exec env (VerifyReview eid rid clear pf) s = verifyReview env eid rid clear pf s"
| "exec env (CalculateFinalScore eid) s = calculateFinalScore eid s"

definition step :: "fhe \<Rightarrow> call \<Rightarrow> contract \<Rightarrow> contract" where
  "step env c s = (case exec env c s of Inl _ \<Rightarrow> s | Inr s' \<Rightarrow> s')"

fun run :: "fhe \<Rightarrow> call list \<Rightarrow> contract \<Rightarrow> contract" where
  "run env [] s = s"
| "run env (c # cs) s = run env cs (step env c s)"

subsection \<open>The vocabulary of the properties\<close>

text \<open>The identifiers of an employee's reviews that are verified.\<close>

definition verifiedIds :: "contract \<Rightarrow> string \<Rightarrow> string set" where
  "verifiedIds s eid = {rid. isVerified (reviews (employees s eid) rid)}"

text \<open>The sum of score times weight over an employee's verified reviews.\<close>

definition verifiedSum :: "contract \<Rightarrow> string \<Rightarrow> nat" where
  "verifiedSum s eid =
     sum (\<lambda>rid. unat (decryptedScore (reviews (employees s eid) rid)) *
                unat (weight (reviews (employees s eid) rid)))
         (verifiedIds s eid)"

text \<open>
  A call overwrites a verified review when it is a \<open>submitReview\<close> that succeeds and
  derives the identifier of a review that is verified at that moment: two submissions
  for one employee in one block timestamp derive one identifier.
\<close>

fun overwritesVerified :: "fhe \<Rightarrow> call \<Rightarrow> contract \<Rightarrow> bool" where
  "overwritesVerified env (SubmitReview sender ts eid ext pf w dept) s =
     (case submitReview env sender ts eid ext pf w dept s of
        Inl _ \<Rightarrow> False
      | Inr _ \<Rightarrow> isVerified (reviews (employees s eid) (reviewIdOf eid ts)))"
| "overwritesVerified env (AddEmployee eid nm dept) s = False"
| "overwritesVerified env (VerifyReview eid rid clear pf) s = False"
| "overwritesVerified env (CalculateFinalScore eid) s = False"

fun noOverwrite :: "fhe \<Rightarrow> call list \<Rightarrow> contract \<Rightarrow> bool" where
  "noOverwrite env [] s = True"
| "noOverwrite env (c # cs) s =
     (\<not> overwritesVerified env c s \<and> noOverwrite env cs (step env c s))"

text \<open>Whether a sequence of calls holds a \<open>calculateFinalScore\<close> for an employee.\<close>

fun finalizes :: "string \<Rightarrow> call \<Rightarrow> bool" where
  "finalizes e (CalculateFinalScore eid) = (eid = e)"
| "finalizes e (AddEmployee eid nm dept) = False"
| "finalizes e (SubmitReview sender ts eid ext pf w dept) = False"
| "finalizes e (VerifyReview eid rid clear pf) = False"

subsection \<open>Two stand-ins for the library\<close>

text \<open>
  A library that accepts every proof, returning the external handle as
  \<open>FHE.fromExternal\<close> does, and one that rejects every proof.
\<close>

definition acceptAll :: fhe where
  "acceptAll = \<lparr>fromExternal = (\<lambda>h pf sender. Some h),
     checkSignatures = (\<lambda>cts clear pf. True)\<rparr>"

definition rejectAll :: fhe where
  "rejectAll = \<lparr>fromExternal = (\<lambda>h pf sender. None),
     checkSignatures = (\<lambda>cts clear pf. False)\<rparr>"

text \<open>The payload \<open>abi.encode(uint32 v)\<close>: one word of 32 bytes, big-endian.\<close>

definition abi_encode_uint32 :: "uint32 \<Rightarrow> bytes" where
  "abi_encode_uint32 v =
     replicate 28 0 @
     [ucast (drop_bit 24 v), ucast (drop_bit 16 v), ucast (drop_bit 8 v), ucast v]"

text \<open>
  What every reachable storage satisfies: an employee has finitely many verified
  reviews, and none before it exists.
\<close>

definition storageOk :: "contract \<Rightarrow> bool" where
  "storageOk s = (\<forall>e. finite (verifiedIds s e) \<and> (employeeExists s e \<or> verifiedIds s e = {}))"

text \<open>
  The scenario of the specification on the accepting stand-in: employee \<open>E1\<close> of
  department 10, a review of weight 2 submitted at timestamp 100 and verified with the
  clear value 8, a review of weight 3 submitted at timestamp 101 and verified with 6.
\<close>

definition oneReview :: "call list" where
  "oneReview =
     [AddEmployee ''E1'' ''Alice'' 10,
      SubmitReview 7 100 ''E1'' 5 [] 2 10,
      VerifyReview ''E1'' (reviewIdOf ''E1'' 100) (abi_encode_uint32 8) []]"

definition twoReviews :: "call list" where
  "twoReviews = oneReview @
     [SubmitReview 7 101 ''E1'' 6 [] 3 10,
      VerifyReview ''E1'' (reviewIdOf ''E1'' 101) (abi_encode_uint32 6) []]"

text \<open>
  Whether a call is a \<open>submitReview\<close> that succeeds and derives a given identifier for a
  given employee, and whether a sequence of calls holds none.
\<close>

fun submitsTo :: "fhe \<Rightarrow> string \<Rightarrow> string \<Rightarrow> call \<Rightarrow> contract \<Rightarrow> bool" where
  "submitsTo env e rid (SubmitReview sender ts eid ext pf w dept) s =
     (case submitReview env sender ts eid ext pf w dept s of
        Inl _ \<Rightarrow> False
      | Inr _ \<Rightarrow> eid = e \<and> reviewIdOf eid ts = rid)"
| "submitsTo env e rid (AddEmployee eid nm dept) s = False"
| "submitsTo env e rid (VerifyReview eid r clear pf) s = False"
| "submitsTo env e rid (CalculateFinalScore eid) s = False"

fun neverSubmitted :: "fhe \<Rightarrow> string \<Rightarrow> string \<Rightarrow> call list \<Rightarrow> contract \<Rightarrow> bool" where
  "neverSubmitted env e rid [] s = True"
| "neverSubmitted env e rid (c # cs) s =
     (\<not> submitsTo env e rid c s \<and> neverSubmitted env e rid cs (step env c s))"

text \<open>The first review of the scenario, then a second submission in its block timestamp.\<close>

definition resubmitted :: "call list" where
  "resubmitted = oneReview @ [SubmitReview 7 100 ''E1'' 5 [] 2 10]"

text \<open>
  Employee \<open>E1\<close> alone, and then a \<open>verifyReview\<close> on the identifier \<open>R0\<close>, which no
  submission derives.
\<close>

definition employeeOnly :: "call list" where
  "employeeOnly = [AddEmployee ''E1'' ''Alice'' 10]"

definition phantomVerified :: "call list" where
  "phantomVerified = employeeOnly @ [VerifyReview ''E1'' ''R0'' (abi_encode_uint32 8) []]"

text \<open>Employee \<open>E1\<close> and a pending review of weight \<open>2 ^ 255\<close>.\<close>

definition heavyReview :: "call list" where
  "heavyReview =
     [AddEmployee ''E1'' ''Alice'' 10,
      SubmitReview 7 100 ''E1'' 5 [] (2 ^ 255) 10]"

section \<open>Lemmas on the functions\<close>


lemma checked_add_Some: "checked_add a b = Some c \<Longrightarrow> unat c = unat a + unat b"
  by (auto simp: checked_add_def unat_word_ariths split: if_splits)

lemma checked_mul_Some: "checked_mul a b = Some c \<Longrightarrow> unat c = unat a * unat b"
  by (auto simp: checked_mul_def unat_word_ariths split: if_splits)

lemma unat_ucast_u32: "unat (ucast (v :: uint32) :: uint256) = unat v"
  by (simp add: unsigned_ucast_eq take_bit_nat_eq_self_iff) (use unsigned_less [of v, where 'a=nat] in simp)

lemma submitReview_InrE:
  assumes "submitReview env sender ts eid ext pf w dept s = Inr s'"
  obtains h where "employeeExists s eid" and "0 < w"
    and "fromExternal env ext pf sender = Some h" and "h \<noteq> 0"
    and "departmentId (employees s eid) = dept"
    and "s' = s\<lparr>employees := (employees s)
           (eid := (employees s eid)\<lparr>reviews := (reviews (employees s eid))
              (reviewIdOf eid ts := \<lparr>encryptedScore = h, weight = w,
                 reviewDepartmentId = dept, reviewer = sender, timestamp = ts,
                 decryptedScore = 0, isVerified = False\<rparr>)\<rparr>)\<rparr>"
  using assms
  by (auto simp: submitReview_def Let_def isInitialized_def split: if_splits option.splits)

lemma verifyReview_InrE:
  assumes "verifyReview env eid rid payload pf s = Inr s'"
  obtains v p t c where "employeeExists s eid"
    and "\<not> isVerified (reviews (employees s eid) rid)"
    and "checkSignatures env [encryptedScore (reviews (employees s eid) rid)] payload pf"
    and "abi_decode_uint32 payload = Some v"
    and "checked_mul (ucast v) (weight (reviews (employees s eid) rid)) = Some p"
    and "checked_add (totalScore (employees s eid)) p = Some t"
    and "checked_add (reviewCount (employees s eid)) 1 = Some c"
    and "s' = s\<lparr>employees := (employees s)
           (eid := (employees s eid)\<lparr>totalScore := t, reviewCount := c,
              reviews := (reviews (employees s eid))
                (rid := (reviews (employees s eid) rid)
                   \<lparr>decryptedScore := v, isVerified := True\<rparr>)\<rparr>)\<rparr>"
  using assms
  by (auto simp: verifyReview_def Let_def split: if_splits option.splits)

lemma calculateFinalScore_InrE:
  assumes "calculateFinalScore eid s = Inr s'"
  obtains "employeeExists s eid" and "0 < reviewCount (employees s eid)"
    and "s' = s\<lparr>employees := (employees s)
           (eid := (employees s eid)\<lparr>totalScore :=
              totalScore (employees s eid) div reviewCount (employees s eid)\<rparr>)\<rparr>"
  using assms
  by (auto simp: calculateFinalScore_def Let_def split: if_splits)

lemma addEmployee_InrE:
  assumes "addEmployee eid nm dept s = Inr s'"
  obtains "\<not> employeeExists s eid"
    and "s' = s\<lparr>employees := (employees s)
           (eid := (employees s eid)\<lparr>employeeId := eid, name := nm, totalScore := 0,
              reviewCount := 0, departmentId := dept\<rparr>),
         departmentEmployees := (departmentEmployees s)
           (dept := departmentEmployees s dept @ [eid]),
         employeeExists := (employeeExists s)(eid := True)\<rparr>"
  using assms
  by (auto simp: addEmployee_def Let_def split: if_splits)

text \<open>The effect of one call on the verified identifiers.\<close>

lemma verifiedIds_submit:
  assumes "submitReview env sender ts eid ext pf w dept s = Inr s'"
  shows "verifiedIds s' e =
     (if e = eid then verifiedIds s e - {reviewIdOf eid ts} else verifiedIds s e)"
  using assms by (elim submitReview_InrE) (auto simp: verifiedIds_def)

lemma verifiedIds_verify:
  assumes "verifyReview env eid rid payload pf s = Inr s'"
  shows "verifiedIds s' e = (if e = eid then insert rid (verifiedIds s e) else verifiedIds s e)"
    and "rid \<notin> verifiedIds s eid"
  using assms by (elim verifyReview_InrE; auto simp: verifiedIds_def)+

lemma verifiedIds_calc:
  assumes "calculateFinalScore eid s = Inr s'"
  shows "verifiedIds s' e = verifiedIds s e"
  using assms by (elim calculateFinalScore_InrE) (auto simp: verifiedIds_def)

lemma verifiedIds_add:
  assumes "addEmployee eid nm dept s = Inr s'"
  shows "verifiedIds s' e = verifiedIds s e"
  using assms by (elim addEmployee_InrE) (auto simp: verifiedIds_def)

lemma storageOk_init: "storageOk init"
  by (simp add: storageOk_def init_def verifiedIds_def zeroEmployee_def zeroReview_def)

lemma employeeExists_mono:
  "exec env c s = Inr s' \<Longrightarrow> employeeExists s e \<Longrightarrow> employeeExists s' e"
  by (cases c)
     (auto elim!: submitReview_InrE verifyReview_InrE calculateFinalScore_InrE addEmployee_InrE)

lemma verifiedIds_exec:
  assumes "exec env c s = Inr s'"
  shows "verifiedIds s' e \<subseteq> verifiedIds s e \<or>
         (\<exists>rid. employeeExists s e \<and> verifiedIds s' e = insert rid (verifiedIds s e))"
proof (cases c)
  case (AddEmployee eid nm dept)
  with assms show ?thesis by (simp add: verifiedIds_add)
next
  case (SubmitReview sender ts eid ext pf w dept)
  with assms show ?thesis by (auto simp: verifiedIds_submit)
next
  case (VerifyReview eid rid payload pf)
  with assms have v: "verifyReview env eid rid payload pf s = Inr s'" by simp
  show ?thesis
  proof (cases "e = eid")
    case True
    from v have "employeeExists s eid" by (elim verifyReview_InrE)
    with True v show ?thesis by (auto simp: verifiedIds_verify(1))
  next
    case False
    with v show ?thesis by (simp add: verifiedIds_verify(1))
  qed
next
  case (CalculateFinalScore eid)
  with assms show ?thesis by (simp add: verifiedIds_calc)
qed

lemma storageOk_exec:
  assumes "storageOk s" and "exec env c s = Inr s'"
  shows "storageOk s'"
  unfolding storageOk_def
proof (intro allI conjI)
  fix e
  from assms(1) have fin: "finite (verifiedIds s e)"
    and ex: "employeeExists s e \<or> verifiedIds s e = {}"
    by (simp_all add: storageOk_def)
  from verifiedIds_exec [OF assms(2), of e] fin
  show "finite (verifiedIds s' e)"
    by (auto intro: finite_subset)
  from verifiedIds_exec [OF assms(2), of e] ex employeeExists_mono [OF assms(2), of e]
  show "employeeExists s' e \<or> verifiedIds s' e = {}"
    by auto
qed

lemma storageOk_step: "storageOk s \<Longrightarrow> storageOk (step env c s)"
  by (auto simp: step_def split: sum.splits intro: storageOk_exec)

lemma storageOk_run: "storageOk s \<Longrightarrow> storageOk (run env cs s)"
  by (induction cs arbitrary: s) (simp_all add: storageOk_step)


lemma count_exec:
  assumes ok: "storageOk s"
    and cnt: "\<forall>e. unat (reviewCount (employees s e)) = card (verifiedIds s e)"
    and ex: "exec env c s = Inr s'"
    and no: "\<not> overwritesVerified env c s"
  shows "unat (reviewCount (employees s' e)) = card (verifiedIds s' e)"
proof (cases c)
  case (AddEmployee eid nm dept)
  with ex have a: "addEmployee eid nm dept s = Inr s'" by simp
  from a have "\<not> employeeExists s eid" by (elim addEmployee_InrE)
  with ok have "verifiedIds s eid = {}" by (auto simp: storageOk_def)
  moreover from a have "reviewCount (employees s' e) =
      (if e = eid then 0 else reviewCount (employees s e))"
    by (elim addEmployee_InrE) simp
  ultimately show ?thesis using cnt by (simp add: verifiedIds_add [OF a])
next
  case (SubmitReview sender ts eid ext pf w dept)
  with ex have a: "submitReview env sender ts eid ext pf w dept s = Inr s'" by simp
  with no SubmitReview have "reviewIdOf eid ts \<notin> verifiedIds s eid"
    by (simp add: verifiedIds_def)
  moreover from a have "reviewCount (employees s' e) = reviewCount (employees s e)"
    by (elim submitReview_InrE) simp
  ultimately show ?thesis using cnt by (simp add: verifiedIds_submit [OF a])
next
  case (VerifyReview eid rid payload pf)
  with ex have a: "verifyReview env eid rid payload pf s = Inr s'" by simp
  from a have rc: "unat (reviewCount (employees s' e)) =
      (if e = eid then unat (reviewCount (employees s e)) + 1
       else unat (reviewCount (employees s e)))"
    by (elim verifyReview_InrE) (auto dest: checked_add_Some)
  from ok have "finite (verifiedIds s eid)" by (simp add: storageOk_def)
  with rc cnt verifiedIds_verify [OF a] show ?thesis by simp
next
  case (CalculateFinalScore eid)
  with ex have a: "calculateFinalScore eid s = Inr s'" by simp
  from a have "reviewCount (employees s' e) = reviewCount (employees s e)"
    by (elim calculateFinalScore_InrE) simp
  with cnt show ?thesis by (simp add: verifiedIds_calc [OF a])
qed

lemma count_run:
  assumes "storageOk s"
    and "\<forall>e. unat (reviewCount (employees s e)) = card (verifiedIds s e)"
    and "noOverwrite env cs s"
  shows "\<forall>e. unat (reviewCount (employees (run env cs s) e)) = card (verifiedIds (run env cs s) e)"
  using assms
proof (induction cs arbitrary: s)
  case Nil
  then show ?case by simp
next
  case (Cons c cs)
  have "storageOk (step env c s)" using Cons.prems(1) by (rule storageOk_step)
  moreover have "\<forall>e. unat (reviewCount (employees (step env c s) e)) =
      card (verifiedIds (step env c s) e)"
  proof (cases "exec env c s")
    case (Inl err)
    then show ?thesis using Cons.prems(2) by (simp add: step_def)
  next
    case (Inr s')
    with Cons.prems show ?thesis
      by (auto simp: step_def intro: count_exec)
  qed
  moreover have "noOverwrite env cs (step env c s)" using Cons.prems(3) by simp
  ultimately show ?case using Cons.IH by simp
qed

lemma verifiedSum_cong:
  assumes "verifiedIds s' e = verifiedIds s e"
    and "\<And>rid. rid \<in> verifiedIds s e \<Longrightarrow>
       reviews (employees s' e) rid = reviews (employees s e) rid"
  shows "verifiedSum s' e = verifiedSum s e"
  using assms by (simp add: verifiedSum_def cong: sum.cong)

lemma sum_exec:
  assumes ok: "storageOk s"
    and tot: "unat (totalScore (employees s e)) = verifiedSum s e"
    and ex: "exec env c s = Inr s'"
    and no: "\<not> overwritesVerified env c s"
    and nf: "\<not> finalizes e c"
  shows "unat (totalScore (employees s' e)) = verifiedSum s' e"
proof (cases c)
  case (AddEmployee eid nm dept)
  with ex have a: "addEmployee eid nm dept s = Inr s'" by simp
  show ?thesis
  proof (cases "e = eid")
    case True
    from a have "\<not> employeeExists s eid" by (elim addEmployee_InrE)
    with ok have "verifiedIds s eid = {}" by (auto simp: storageOk_def)
    then have "verifiedSum s' eid = 0"
      by (simp add: verifiedSum_def verifiedIds_add [OF a])
    moreover from a have "totalScore (employees s' eid) = 0"
      by (elim addEmployee_InrE) simp
    ultimately show ?thesis using True by simp
  next
    case False
    with a have "employees s' e = employees s e" by (elim addEmployee_InrE) simp
    with tot show ?thesis by (simp add: verifiedSum_def verifiedIds_def)
  qed
next
  case (SubmitReview sender ts eid ext pf w dept)
  with ex have a: "submitReview env sender ts eid ext pf w dept s = Inr s'" by simp
  with no SubmitReview have nin: "reviewIdOf eid ts \<notin> verifiedIds s eid"
    by (simp add: verifiedIds_def)
  have "verifiedSum s' e = verifiedSum s e"
  proof (rule verifiedSum_cong)
    show "verifiedIds s' e = verifiedIds s e"
      using nin by (simp add: verifiedIds_submit [OF a])
    fix rid assume "rid \<in> verifiedIds s e"
    with nin have "\<not> (e = eid \<and> rid = reviewIdOf eid ts)" by auto
    with a show "reviews (employees s' e) rid = reviews (employees s e) rid"
      by (elim submitReview_InrE) auto
  qed
  moreover from a have "totalScore (employees s' e) = totalScore (employees s e)"
    by (elim submitReview_InrE) simp
  ultimately show ?thesis using tot by simp
next
  case (VerifyReview eid rid payload pf)
  with ex have a: "verifyReview env eid rid payload pf s = Inr s'" by simp
  show ?thesis
  proof (cases "e = eid")
    case False
    with a have "employees s' e = employees s e" by (elim verifyReview_InrE) simp
    with tot show ?thesis by (simp add: verifiedSum_def verifiedIds_def)
  next
    case True
    from ok have fin: "finite (verifiedIds s eid)" by (simp add: storageOk_def)
    from verifiedIds_verify [OF a] have ins: "verifiedIds s' eid = insert rid (verifiedIds s eid)"
      and nin: "rid \<notin> verifiedIds s eid" by simp_all
    from a have new: "unat (totalScore (employees s' eid)) =
        unat (totalScore (employees s eid)) +
        unat (decryptedScore (reviews (employees s' eid) rid)) *
        unat (weight (reviews (employees s' eid) rid))"
      by (elim verifyReview_InrE)
         (auto dest!: checked_add_Some checked_mul_Some simp: unat_ucast_u32)
    from a have same: "\<And>r. r \<noteq> rid \<Longrightarrow>
        reviews (employees s' eid) r = reviews (employees s eid) r"
      by (elim verifyReview_InrE) simp
    have "verifiedSum s' eid =
        unat (decryptedScore (reviews (employees s' eid) rid)) *
        unat (weight (reviews (employees s' eid) rid)) +
        sum (\<lambda>r. unat (decryptedScore (reviews (employees s' eid) r)) *
                  unat (weight (reviews (employees s' eid) r))) (verifiedIds s eid)"
      using fin nin by (simp add: verifiedSum_def ins)
    also have "sum (\<lambda>r. unat (decryptedScore (reviews (employees s' eid) r)) *
                  unat (weight (reviews (employees s' eid) r))) (verifiedIds s eid) =
        verifiedSum s eid"
      unfolding verifiedSum_def
    proof (rule sum.cong)
      fix x assume "x \<in> verifiedIds s eid"
      with nin have "x \<noteq> rid" by auto
      then show "unat (decryptedScore (reviews (employees s' eid) x)) *
          unat (weight (reviews (employees s' eid) x)) =
          unat (decryptedScore (reviews (employees s eid) x)) *
          unat (weight (reviews (employees s eid) x))"
        by (simp add: same)
    qed simp
    finally show ?thesis using True tot new by simp
  qed
next
  case (CalculateFinalScore eid)
  with ex have a: "calculateFinalScore eid s = Inr s'" by simp
  from nf CalculateFinalScore have "eid \<noteq> e" by simp
  with a have "employees s' e = employees s e" by (elim calculateFinalScore_InrE) simp
  with tot show ?thesis by (simp add: verifiedSum_def verifiedIds_def)
qed

lemma sum_run:
  assumes "storageOk s"
    and "unat (totalScore (employees s e)) = verifiedSum s e"
    and "noOverwrite env cs s"
    and "\<not> list_ex (finalizes e) cs"
  shows "unat (totalScore (employees (run env cs s) e)) = verifiedSum (run env cs s) e"
  using assms
proof (induction cs arbitrary: s)
  case Nil
  then show ?case by simp
next
  case (Cons c cs)
  have "storageOk (step env c s)" using Cons.prems(1) by (rule storageOk_step)
  moreover have "unat (totalScore (employees (step env c s) e)) = verifiedSum (step env c s) e"
  proof (cases "exec env c s")
    case (Inl err)
    then show ?thesis using Cons.prems(2) by (simp add: step_def)
  next
    case (Inr s')
    with Cons.prems show ?thesis
      by (auto simp: step_def intro: sum_exec)
  qed
  moreover have "noOverwrite env cs (step env c s)" using Cons.prems(3) by simp
  moreover have "\<not> list_ex (finalizes e) cs" using Cons.prems(4) by simp
  ultimately show ?case using Cons.IH by simp
qed


lemma char_of_unat_eq:
  "char_of (unat (a :: uint256)) = char_of (unat (b :: uint256)) \<longleftrightarrow> take_bit 8 a = take_bit 8 b"
proof -
  have "char_of (unat a) = char_of (unat b) \<longleftrightarrow> take_bit 8 (unat a) = take_bit 8 (unat b)"
    by (simp add: char_of_eq_iff take_bit_eq_mod)
  also have "\<dots> \<longleftrightarrow> unat (take_bit 8 a) = unat (take_bit 8 b)"
    by (simp only: unsigned_take_bit_eq)
  also have "\<dots> \<longleftrightarrow> take_bit 8 a = take_bit 8 b"
    by (simp only: word_unat_eq_iff)
  finally show ?thesis .
qed

lemma encodePacked_uint256_inj:
  assumes "encodePacked_uint256 a = encodePacked_uint256 b"
  shows "a = b"
proof (rule bit_word_eqI)
  fix n assume n: "n < LENGTH(256)"
  then have i: "31 - n div 8 < 32" by simp
  from assms have "\<forall>i\<in>set [0..<32]. char_of (unat (drop_bit (8 * (31 - i)) a)) =
      char_of (unat (drop_bit (8 * (31 - i)) b))"
    unfolding encodePacked_uint256_def map_eq_conv by simp
  with i have "char_of (unat (drop_bit (8 * (31 - (31 - n div 8))) a)) =
      char_of (unat (drop_bit (8 * (31 - (31 - n div 8))) b))"
    by (metis atLeastLessThan_iff set_upt zero_le)
  moreover from n have "31 - (31 - n div 8) = n div 8" by simp
  ultimately have "char_of (unat (drop_bit (8 * (n div 8)) a)) =
      char_of (unat (drop_bit (8 * (n div 8)) b))"
    by (simp only:)
  then have "take_bit 8 (drop_bit (8 * (n div 8)) a) = take_bit 8 (drop_bit (8 * (n div 8)) b)"
    by (simp only: char_of_unat_eq)
  then have "bit (take_bit 8 (drop_bit (8 * (n div 8)) a)) (n mod 8) =
      bit (take_bit 8 (drop_bit (8 * (n div 8)) b)) (n mod 8)" by simp
  then show "bit a n = bit b n"
    by (simp add: bit_take_bit_iff bit_drop_bit_eq)
qed

lemma reviewIdOf_eq_iff: "reviewIdOf eid ts = reviewIdOf eid ts' \<longleftrightarrow> ts = ts'"
  by (auto simp: reviewIdOf_def dest: encodePacked_uint256_inj)

lemma be_nat_zeros: "foldl (\<lambda>acc b. acc * 256 + unat b) 0 (replicate n (0::8 word)) = 0"
  by (induction n) simp_all

lemma be_nat_pad: "be_nat (replicate n 0 @ bs) = be_nat bs"
  by (simp add: be_nat_def be_nat_zeros)

lemma abi_decode_8: "abi_decode_uint32 (abi_encode_uint32 8) = Some 8"
  by (simp add: abi_decode_uint32_def abi_encode_uint32_def be_nat_pad) (simp add: be_nat_def)

lemma abi_decode_6: "abi_decode_uint32 (abi_encode_uint32 6) = Some 6"
  by (simp add: abi_decode_uint32_def abi_encode_uint32_def be_nat_pad) (simp add: be_nat_def)

lemma abi_decode_2: "abi_decode_uint32 (abi_encode_uint32 2) = Some 2"
  by (simp add: abi_decode_uint32_def abi_encode_uint32_def be_nat_pad) (simp add: be_nat_def)

lemmas run_defs = step_def addEmployee_def submitReview_def verifyReview_def
  calculateFinalScore_def init_def zeroEmployee_def zeroReview_def acceptAll_def
  rejectAll_def isInitialized_def checked_add_def checked_mul_def Let_def

lemma verified_exists:
  "storageOk s \<Longrightarrow> isVerified (reviews (employees s eid) rid) \<Longrightarrow> employeeExists s eid"
  by (auto simp: storageOk_def verifiedIds_def)

lemma review_exec_other:
  assumes "exec env c s = Inr s'" and "\<not> submitsTo env e rid c s"
    and "isVerified (reviews (employees s e) rid)"
  shows "reviews (employees s' e) rid = reviews (employees s e) rid"
proof (cases c)
  case (AddEmployee eid nm dept)
  with assms(1) show ?thesis by (auto elim!: addEmployee_InrE)
next
  case (SubmitReview sender ts eid ext pf w dept)
  with assms(1) have a: "submitReview env sender ts eid ext pf w dept s = Inr s'" by simp
  with assms(2) SubmitReview have "\<not> (eid = e \<and> reviewIdOf eid ts = rid)" by simp
  with a show ?thesis by (elim submitReview_InrE) auto
next
  case (VerifyReview eid r payload pf)
  with assms(1) have a: "verifyReview env eid r payload pf s = Inr s'" by simp
  from a assms(3) have "\<not> (eid = e \<and> r = rid)" by (elim verifyReview_InrE) auto
  with a show ?thesis by (elim verifyReview_InrE) auto
next
  case (CalculateFinalScore eid)
  with assms(1) show ?thesis by (auto elim!: calculateFinalScore_InrE)
qed

lemma review_step_other:
  assumes "\<not> submitsTo env e rid c s" and "isVerified (reviews (employees s e) rid)"
  shows "reviews (employees (step env c s) e) rid = reviews (employees s e) rid"
  using assms by (auto simp: step_def split: sum.splits intro: review_exec_other)

text \<open>
  A slot that no \<open>submitReview\<close> wrote keeps the zero weight and the zero handle:
  \<open>verifyReview\<close> writes neither.
\<close>

lemma blank_exec:
  assumes "exec env c s = Inr s'" and "\<not> submitsTo env e rid c s"
    and "weight (reviews (employees s e) rid) = 0"
    and "encryptedScore (reviews (employees s e) rid) = 0"
  shows "weight (reviews (employees s' e) rid) = 0 \<and>
         encryptedScore (reviews (employees s' e) rid) = 0"
proof (cases c)
  case (AddEmployee eid nm dept)
  with assms show ?thesis by (auto elim!: addEmployee_InrE)
next
  case (SubmitReview sender ts eid ext pf w dept)
  with assms(1) have a: "submitReview env sender ts eid ext pf w dept s = Inr s'" by simp
  with assms(2) SubmitReview have "\<not> (eid = e \<and> reviewIdOf eid ts = rid)" by simp
  with a assms(3,4) show ?thesis by (elim submitReview_InrE) auto
next
  case (VerifyReview eid r payload pf)
  with assms(1) have a: "verifyReview env eid r payload pf s = Inr s'" by simp
  with assms(3,4) show ?thesis by (elim verifyReview_InrE) auto
next
  case (CalculateFinalScore eid)
  with assms show ?thesis by (auto elim!: calculateFinalScore_InrE)
qed

lemma blank_run:
  assumes "neverSubmitted env e rid cs s"
    and "weight (reviews (employees s e) rid) = 0"
    and "encryptedScore (reviews (employees s e) rid) = 0"
  shows "weight (reviews (employees (run env cs s) e) rid) = 0 \<and>
         encryptedScore (reviews (employees (run env cs s) e) rid) = 0"
  using assms
proof (induction cs arbitrary: s)
  case Nil
  then show ?case by simp
next
  case (Cons c cs)
  have "weight (reviews (employees (step env c s) e) rid) = 0 \<and>
        encryptedScore (reviews (employees (step env c s) e) rid) = 0"
  proof (cases "exec env c s")
    case (Inl err)
    with Cons.prems show ?thesis by (simp add: step_def)
  next
    case (Inr s')
    with Cons.prems blank_exec [OF Inr, of e rid] show ?thesis by (simp add: step_def)
  qed
  with Cons.prems(1) Cons.IH show ?case by simp
qed

lemma blank_init:
  "weight (reviews (employees init e) rid) = 0 \<and>
   encryptedScore (reviews (employees init e) rid) = 0"
  by (simp add: init_def zeroEmployee_def zeroReview_def)

section \<open>The claims\<close>

lemmas demo_defs = oneReview_def twoReviews_def abi_decode_8 abi_decode_6 abi_decode_2
  reviewIdOf_eq_iff

subsection \<open>C5: the final score is the truncated quotient, written over the total\<close>

text \<open>
  C5. For every existing employee with \<open>reviewCount > 0\<close>, \<open>calculateFinalScore\<close>
  succeeds and overwrites \<open>totalScore\<close> with \<open>totalScore / reviewCount\<close>, the
  truncating division of unsigned integers (the quotient of the two values as natural
  numbers). Consequently, after two reviews of weights 2 and 3 are verified with the clear
  values 8 and 6, \<open>totalScore\<close> is 34 and \<open>reviewCount\<close> is 2; the first
  \<open>calculateFinalScore\<close> sets \<open>totalScore\<close> to 17 and a second one sets it to 8.
  The scenario holds for every library that accepts the two submissions and the two
  attestations, and for every two distinct block timestamps.
\<close>

theorem calculateFinalScore_quotient:
  "(\<forall>(s::contract) eid. employeeExists s eid \<and> 0 < reviewCount (employees s eid) \<longrightarrow>
      calculateFinalScore eid s =
        Inr (s\<lparr>employees := (employees s)(eid := (employees s eid)
               \<lparr>totalScore := totalScore (employees s eid) div reviewCount (employees s eid)\<rparr>)\<rparr>) \<and>
      unat (totalScore (employees s eid) div reviewCount (employees s eid)) =
        unat (totalScore (employees s eid)) div unat (reviewCount (employees s eid))) \<and>
   (\<forall>env nm dept sender1 ts1 ext1 ipf1 h1 payload1 pf1 sender2 ts2 ext2 ipf2 h2 payload2 pf2.
      ts1 \<noteq> ts2 \<and>
      fromExternal env ext1 ipf1 sender1 = Some h1 \<and> h1 \<noteq> 0 \<and>
      checkSignatures env [h1] payload1 pf1 \<and> abi_decode_uint32 payload1 = Some 8 \<and>
      fromExternal env ext2 ipf2 sender2 = Some h2 \<and> h2 \<noteq> 0 \<and>
      checkSignatures env [h2] payload2 pf2 \<and> abi_decode_uint32 payload2 = Some 6 \<longrightarrow>
      totalScore (employees (run env
        [AddEmployee ''E1'' nm dept,
         SubmitReview sender1 ts1 ''E1'' ext1 ipf1 2 dept,
         VerifyReview ''E1'' (reviewIdOf ''E1'' ts1) payload1 pf1,
         SubmitReview sender2 ts2 ''E1'' ext2 ipf2 3 dept,
         VerifyReview ''E1'' (reviewIdOf ''E1'' ts2) payload2 pf2] init) ''E1'') = 34 \<and>
      reviewCount (employees (run env
        [AddEmployee ''E1'' nm dept,
         SubmitReview sender1 ts1 ''E1'' ext1 ipf1 2 dept,
         VerifyReview ''E1'' (reviewIdOf ''E1'' ts1) payload1 pf1,
         SubmitReview sender2 ts2 ''E1'' ext2 ipf2 3 dept,
         VerifyReview ''E1'' (reviewIdOf ''E1'' ts2) payload2 pf2] init) ''E1'') = 2 \<and>
      totalScore (employees (run env
        [AddEmployee ''E1'' nm dept,
         SubmitReview sender1 ts1 ''E1'' ext1 ipf1 2 dept,
         VerifyReview ''E1'' (reviewIdOf ''E1'' ts1) payload1 pf1,
         SubmitReview sender2 ts2 ''E1'' ext2 ipf2 3 dept,
         VerifyReview ''E1'' (reviewIdOf ''E1'' ts2) payload2 pf2,
         CalculateFinalScore ''E1''] init) ''E1'') = 17 \<and>
      totalScore (employees (run env
        [AddEmployee ''E1'' nm dept,
         SubmitReview sender1 ts1 ''E1'' ext1 ipf1 2 dept,
         VerifyReview ''E1'' (reviewIdOf ''E1'' ts1) payload1 pf1,
         SubmitReview sender2 ts2 ''E1'' ext2 ipf2 3 dept,
         VerifyReview ''E1'' (reviewIdOf ''E1'' ts2) payload2 pf2,
         CalculateFinalScore ''E1'', CalculateFinalScore ''E1''] init) ''E1'') = 8)"
  by (intro conjI allI impI) (simp_all add: run_defs reviewIdOf_eq_iff unat_div)

text \<open>The theorem at the scenario on the accepting stand-in.\<close>

theorem calculateFinalScore_quotient_witness:
  "employeeExists (run acceptAll twoReviews init) ''E1'' \<and>
   0 < reviewCount (employees (run acceptAll twoReviews init) ''E1'') \<and>
   unat (totalScore (employees (run acceptAll twoReviews init) ''E1'')) = 34 \<and>
   unat (reviewCount (employees (run acceptAll twoReviews init) ''E1'')) = 2 \<and>
   unat (totalScore (employees (run acceptAll twoReviews init) ''E1'') div
         reviewCount (employees (run acceptAll twoReviews init) ''E1'')) = 34 div 2 \<and>
   totalScore (employees (run acceptAll (twoReviews @ [CalculateFinalScore ''E1'']) init) ''E1'') = 17 \<and>
   totalScore (employees (run acceptAll
     (twoReviews @ [CalculateFinalScore ''E1'', CalculateFinalScore ''E1'']) init) ''E1'') = 8"
proof -
  have h1: "employeeExists (run acceptAll twoReviews init) ''E1'' \<and>
      0 < reviewCount (employees (run acceptAll twoReviews init) ''E1'')"
    by (simp add: demo_defs run_defs)
  have v: "unat (totalScore (employees (run acceptAll twoReviews init) ''E1'')) = 34 \<and>
      unat (reviewCount (employees (run acceptAll twoReviews init) ''E1'')) = 2"
    by (simp add: demo_defs run_defs)
  have h2: "(100::uint256) \<noteq> 101 \<and>
      fromExternal acceptAll 5 [] 7 = Some 5 \<and> (5::uint256) \<noteq> 0 \<and>
      checkSignatures acceptAll [5] (abi_encode_uint32 8) [] \<and>
      abi_decode_uint32 (abi_encode_uint32 8) = Some 8 \<and>
      fromExternal acceptAll 6 [] 7 = Some 6 \<and> (6::uint256) \<noteq> 0 \<and>
      checkSignatures acceptAll [6] (abi_encode_uint32 6) [] \<and>
      abi_decode_uint32 (abi_encode_uint32 6) = Some 6"
    by (simp add: acceptAll_def demo_defs)
  from calculateFinalScore_quotient have g1: "\<forall>(s::contract) eid.
      employeeExists s eid \<and> 0 < reviewCount (employees s eid) \<longrightarrow>
      unat (totalScore (employees s eid) div reviewCount (employees s eid)) =
        unat (totalScore (employees s eid)) div unat (reviewCount (employees s eid))"
    by blast
  from g1 h1 v have q: "unat (totalScore (employees (run acceptAll twoReviews init) ''E1'') div
         reviewCount (employees (run acceptAll twoReviews init) ''E1'')) = 34 div 2"
    by metis
  from calculateFinalScore_quotient [THEN conjunct2, rule_format, OF h2, of "''Alice''" 10]
  have "totalScore (employees (run acceptAll (twoReviews @ [CalculateFinalScore ''E1'']) init) ''E1'') = 17 \<and>
   totalScore (employees (run acceptAll
     (twoReviews @ [CalculateFinalScore ''E1'', CalculateFinalScore ''E1'']) init) ''E1'') = 8"
    by (simp add: twoReviews_def oneReview_def)
  with h1 v q show ?thesis by simp
qed

subsection \<open>C9: no final score without a verified review\<close>

text \<open>
  C9. For every existing employee whose \<open>reviewCount\<close> is 0, \<open>calculateFinalScore\<close>
  fails with \<open>EmptyAggregation\<close>, and the storage after the call, \<open>totalScore\<close>
  included, is the storage before it.
\<close>

theorem calculateFinalScore_empty:
  assumes "employeeExists s eid" and "reviewCount (employees s eid) = 0"
  shows "calculateFinalScore eid s = Inl EmptyAggregation \<and>
         step env (CalculateFinalScore eid) s = s"
  using assms by (simp add: calculateFinalScore_def step_def)

text \<open>The theorem at an employee that was just added.\<close>

theorem calculateFinalScore_empty_witness:
  "employeeExists (run acceptAll [AddEmployee ''E1'' ''Alice'' 10] init) ''E1'' \<and>
   reviewCount (employees (run acceptAll [AddEmployee ''E1'' ''Alice'' 10] init) ''E1'') = 0 \<and>
   calculateFinalScore ''E1'' (run acceptAll [AddEmployee ''E1'' ''Alice'' 10] init) =
     Inl EmptyAggregation \<and>
   totalScore (employees (step acceptAll (CalculateFinalScore ''E1'')
     (run acceptAll [AddEmployee ''E1'' ''Alice'' 10] init)) ''E1'') =
   totalScore (employees (run acceptAll [AddEmployee ''E1'' ''Alice'' 10] init) ''E1'')"
proof -
  have h1: "employeeExists (run acceptAll [AddEmployee ''E1'' ''Alice'' 10] init) ''E1''"
    by (simp add: run_defs)
  have h2: "reviewCount (employees (run acceptAll [AddEmployee ''E1'' ''Alice'' 10] init) ''E1'') = 0"
    by (simp add: run_defs)
  from calculateFinalScore_empty [OF h1 h2, of acceptAll] h1 h2 show ?thesis by simp
qed

subsection \<open>C10: the frame of calculateFinalScore\<close>

text \<open>
  C10. A successful \<open>calculateFinalScore\<close> for an employee changes only that
  employee's \<open>totalScore\<close>: the employee's identifier, name, \<open>reviewCount\<close>,
  \<open>departmentId\<close> and every review record, every other employee, the department index
  and the existence flags are as before the call.
\<close>

theorem calculateFinalScore_frame:
  assumes "calculateFinalScore eid s = Inr s'"
  shows "employeeId (employees s' eid) = employeeId (employees s eid) \<and>
         name (employees s' eid) = name (employees s eid) \<and>
         reviewCount (employees s' eid) = reviewCount (employees s eid) \<and>
         departmentId (employees s' eid) = departmentId (employees s eid) \<and>
         reviews (employees s' eid) = reviews (employees s eid) \<and>
         (\<forall>e. e \<noteq> eid \<longrightarrow> employees s' e = employees s e) \<and>
         departmentEmployees s' = departmentEmployees s \<and>
         employeeExists s' = employeeExists s \<and>
         s' = s\<lparr>employees := (employees s)
                (eid := (employees s eid)\<lparr>totalScore := totalScore (employees s' eid)\<rparr>)\<rparr>"
  using assms by (elim calculateFinalScore_InrE) simp

text \<open>The theorem at the scenario with two verified reviews.\<close>

theorem calculateFinalScore_frame_witness:
  "(\<exists>s'. calculateFinalScore ''E1'' (run acceptAll twoReviews init) = Inr s' \<and>
      totalScore (employees s' ''E1'') = 17 \<and>
      reviewCount (employees s' ''E1'') = 2 \<and>
      reviews (employees s' ''E1'') = reviews (employees (run acceptAll twoReviews init) ''E1'') \<and>
      departmentEmployees s' = departmentEmployees (run acceptAll twoReviews init) \<and>
      employeeExists s' = employeeExists (run acceptAll twoReviews init))"
proof -
  obtain s' where s': "calculateFinalScore ''E1'' (run acceptAll twoReviews init) = Inr s'"
    by (simp add: demo_defs run_defs)
  have t: "totalScore (employees s' ''E1'') = 17"
    using s' by (simp add: demo_defs run_defs) auto
  have r: "reviewCount (employees (run acceptAll twoReviews init) ''E1'') = 2"
    by (simp add: demo_defs run_defs)
  from calculateFinalScore_frame [OF s'] s' t r show ?thesis by simp
qed

subsection \<open>C7: a verified review is not verified twice\<close>

text \<open>
  C7. In every storage reachable from the fresh contract, for every review whose
  \<open>isVerified\<close> flag is set, any \<open>verifyReview\<close> call against it fails with
  \<open>AlreadyVerified\<close>, whatever payload and attestation are supplied and whatever the
  library would answer, and the storage after the call, \<open>totalScore\<close> and
  \<open>reviewCount\<close> included, is the storage before it.
\<close>

theorem verifyReview_already_verified:
  assumes "isVerified (reviews (employees (run env calls init) eid) rid)"
  shows "verifyReview env' eid rid payload pf (run env calls init) = Inl AlreadyVerified \<and>
         step env' (VerifyReview eid rid payload pf) (run env calls init) = run env calls init"
proof -
  have "storageOk (run env calls init)" using storageOk_init by (rule storageOk_run)
  from this assms have "employeeExists (run env calls init) eid" by (rule verified_exists)
  with assms show ?thesis by (simp add: verifyReview_def step_def)
qed

text \<open>The theorem at the verified review of the scenario, with a new clear value.\<close>

theorem verifyReview_already_verified_witness:
  "isVerified (reviews (employees (run acceptAll oneReview init) ''E1'') (reviewIdOf ''E1'' 100)) \<and>
   verifyReview acceptAll ''E1'' (reviewIdOf ''E1'' 100) (abi_encode_uint32 6) []
     (run acceptAll oneReview init) = Inl AlreadyVerified \<and>
   totalScore (employees (step acceptAll
     (VerifyReview ''E1'' (reviewIdOf ''E1'' 100) (abi_encode_uint32 6) [])
     (run acceptAll oneReview init)) ''E1'') = 16 \<and>
   reviewCount (employees (step acceptAll
     (VerifyReview ''E1'' (reviewIdOf ''E1'' 100) (abi_encode_uint32 6) [])
     (run acceptAll oneReview init)) ''E1'') = 1"
proof -
  have h: "isVerified (reviews (employees (run acceptAll oneReview init) ''E1'')
      (reviewIdOf ''E1'' 100))"
    by (simp add: demo_defs run_defs)
  have t: "totalScore (employees (run acceptAll oneReview init) ''E1'') = 16 \<and>
      reviewCount (employees (run acceptAll oneReview init) ''E1'') = 1"
    by (simp add: demo_defs run_defs)
  from verifyReview_already_verified [OF h, of acceptAll "abi_encode_uint32 6" "[]"] h t
  show ?thesis by simp
qed

subsection \<open>C4: what keeps a verified review as it is\<close>

text \<open>
  C4, as the code has it. For every storage in which a review is verified, and every
  sequence of calls in which no \<open>submitReview\<close> succeeds that derives that review's
  identifier for its employee (a submission for the same employee in the block timestamp
  the identifier was derived from), the review record after the sequence is the record
  before it: the review is still there, its \<open>isVerified\<close> flag is set and its
  \<open>decryptedScore\<close> is the same.
\<close>

theorem verified_review_kept:
  assumes "isVerified (reviews (employees s e) rid)"
    and "neverSubmitted env e rid calls s"
  shows "reviews (employees (run env calls s) e) rid = reviews (employees s e) rid"
  using assms
proof (induction calls arbitrary: s)
  case Nil
  then show ?case by simp
next
  case (Cons c cs)
  from Cons.prems have keep: "reviews (employees (step env c s) e) rid = reviews (employees s e) rid"
    by (simp add: review_step_other)
  with Cons.prems have "isVerified (reviews (employees (step env c s) e) rid)"
    and "neverSubmitted env e rid cs (step env c s)"
    by simp_all
  then have "reviews (employees (run env cs (step env c s)) e) rid =
      reviews (employees (step env c s) e) rid"
    by (rule Cons.IH)
  with keep show ?case by simp
qed

text \<open>
  The theorem at the first review of the scenario, through the submission and the
  verification of the second review and two final scores.
\<close>

theorem verified_review_kept_witness:
  "isVerified (reviews (employees (run acceptAll oneReview init) ''E1'') (reviewIdOf ''E1'' 100)) \<and>
   neverSubmitted acceptAll ''E1'' (reviewIdOf ''E1'' 100)
     [SubmitReview 7 101 ''E1'' 6 [] 3 10,
      VerifyReview ''E1'' (reviewIdOf ''E1'' 101) (abi_encode_uint32 6) [],
      CalculateFinalScore ''E1'', CalculateFinalScore ''E1'']
     (run acceptAll oneReview init) \<and>
   isVerified (reviews (employees (run acceptAll
     [SubmitReview 7 101 ''E1'' 6 [] 3 10,
      VerifyReview ''E1'' (reviewIdOf ''E1'' 101) (abi_encode_uint32 6) [],
      CalculateFinalScore ''E1'', CalculateFinalScore ''E1'']
     (run acceptAll oneReview init)) ''E1'') (reviewIdOf ''E1'' 100)) \<and>
   decryptedScore (reviews (employees (run acceptAll
     [SubmitReview 7 101 ''E1'' 6 [] 3 10,
      VerifyReview ''E1'' (reviewIdOf ''E1'' 101) (abi_encode_uint32 6) [],
      CalculateFinalScore ''E1'', CalculateFinalScore ''E1'']
     (run acceptAll oneReview init)) ''E1'') (reviewIdOf ''E1'' 100)) = 8"
proof -
  have h1: "isVerified (reviews (employees (run acceptAll oneReview init) ''E1'')
      (reviewIdOf ''E1'' 100))"
    by (simp add: demo_defs run_defs)
  have d: "decryptedScore (reviews (employees (run acceptAll oneReview init) ''E1'')
      (reviewIdOf ''E1'' 100)) = 8"
    by (simp add: demo_defs run_defs)
  have h2: "neverSubmitted acceptAll ''E1'' (reviewIdOf ''E1'' 100)
     [SubmitReview 7 101 ''E1'' 6 [] 3 10,
      VerifyReview ''E1'' (reviewIdOf ''E1'' 101) (abi_encode_uint32 6) [],
      CalculateFinalScore ''E1'', CalculateFinalScore ''E1'']
     (run acceptAll oneReview init)"
    by (simp add: demo_defs run_defs)
  from verified_review_kept [OF h1 h2] h1 h2 d show ?thesis by simp
qed

text \<open>
  C4 as stated fails: a second \<open>submitReview\<close> for the employee in the block timestamp
  of the first derives the identifier of the verified review and writes a pending review
  with \<open>decryptedScore\<close> 0 over it.
\<close>

theorem verified_review_overwritten:
  "isVerified (reviews (employees (run acceptAll oneReview init) ''E1'') (reviewIdOf ''E1'' 100)) \<and>
   decryptedScore (reviews (employees (run acceptAll oneReview init) ''E1'')
     (reviewIdOf ''E1'' 100)) = 8 \<and>
   \<not> isVerified (reviews (employees (run acceptAll [SubmitReview 7 100 ''E1'' 5 [] 2 10]
     (run acceptAll oneReview init)) ''E1'') (reviewIdOf ''E1'' 100)) \<and>
   decryptedScore (reviews (employees (run acceptAll [SubmitReview 7 100 ''E1'' 5 [] 2 10]
     (run acceptAll oneReview init)) ''E1'') (reviewIdOf ''E1'' 100)) = 0"
  by (simp add: demo_defs run_defs)

subsection \<open>C8: a submission for another department\<close>

text \<open>
  C8, as the code has it. For every \<open>submitReview\<close> call where the employee exists,
  the weight is positive and the supplied department differs from the employee's
  recorded \<open>departmentId\<close>, the call fails and no review is created or overwritten: the
  storage after the call is the storage before it. The input proof is checked before
  the department: the call fails with \<open>InvalidProof\<close> when the library rejects the
  submission or returns an uninitialized handle, and with \<open>DepartmentMismatch\<close> when
  the library accepts it.
\<close>

theorem submitReview_department_mismatch:
  assumes "employeeExists s eid" and "0 < w" and "departmentId (employees s eid) \<noteq> dept"
  shows "submitReview env sender ts eid ext pf w dept s =
           (case fromExternal env ext pf sender of
              None \<Rightarrow> Inl InvalidProof
            | Some h \<Rightarrow> if h = 0 then Inl InvalidProof else Inl DepartmentMismatch) \<and>
         step env (SubmitReview sender ts eid ext pf w dept) s = s"
  using assms
  by (simp add: submitReview_def step_def isInitialized_def split: option.splits)

text \<open>
  The theorem at employee \<open>E1\<close> of department 10 and a submission for department 11,
  on the accepting stand-in.
\<close>

theorem submitReview_department_mismatch_witness:
  "employeeExists (run acceptAll employeeOnly init) ''E1'' \<and>
   (0::uint256) < 2 \<and>
   departmentId (employees (run acceptAll employeeOnly init) ''E1'') \<noteq> 11 \<and>
   submitReview acceptAll 7 100 ''E1'' 5 [] 2 11
     (run acceptAll employeeOnly init) = Inl DepartmentMismatch \<and>
   step acceptAll (SubmitReview 7 100 ''E1'' 5 [] 2 11)
     (run acceptAll employeeOnly init) =
   run acceptAll employeeOnly init"
proof -
  have h1: "employeeExists (run acceptAll employeeOnly init) ''E1''"
    by (simp add: employeeOnly_def run_defs)
  have h2: "(0::uint256) < 2" by simp
  have h3: "departmentId (employees (run acceptAll employeeOnly init) ''E1'') \<noteq> 11"
    by (simp add: employeeOnly_def run_defs)
  have f: "fromExternal acceptAll 5 [] 7 = Some 5" by (simp add: acceptAll_def)
  from submitReview_department_mismatch [OF h1 h2 h3, of acceptAll 7 100 5 "[]"] f h1 h2 h3
  show ?thesis by simp
qed

text \<open>
  C8 as stated fails: with a submission the library rejects, the call for another
  department fails with \<open>InvalidProof\<close>, not with \<open>DepartmentMismatch\<close>.
\<close>

theorem submitReview_proof_before_department:
  "employeeExists (run rejectAll employeeOnly init) ''E1'' \<and>
   departmentId (employees (run rejectAll employeeOnly init) ''E1'') \<noteq> 11 \<and>
   submitReview rejectAll 7 100 ''E1'' 5 [] 2 11
     (run rejectAll employeeOnly init) = Inl InvalidProof \<and>
   submitReview rejectAll 7 100 ''E1'' 5 [] 2 11
     (run rejectAll employeeOnly init) \<noteq> Inl DepartmentMismatch"
  by (simp add: employeeOnly_def run_defs)

subsection \<open>C3: verifying an identifier that was never submitted\<close>

text \<open>
  C3, as the code has it. The contract keeps no record of which reviews exist: for an
  existing employee and an identifier that no successful \<open>submitReview\<close> has derived
  for that employee, \<open>verifyReview\<close> reads the all-zero review (weight 0, zero handle)
  and never fails with \<open>NotFound\<close>. It fails with \<open>AlreadyVerified\<close> when an earlier
  \<open>verifyReview\<close> on that identifier succeeded, and with \<open>InvalidProof\<close> when the
  library rejects the attestation for the zero handle; a failing call leaves the
  storage as it was. When the library accepts the attestation, the payload decodes and
  \<open>reviewCount\<close> is below its maximum, the call succeeds. Every successful call leaves
  the employee's \<open>totalScore\<close> unchanged, sets the review's \<open>isVerified\<close> flag and
  increments \<open>reviewCount\<close> by 1.
\<close>

theorem verifyReview_never_submitted:
  assumes "neverSubmitted env e rid calls init"
    and "employeeExists (run env calls init) e"
  shows "verifyReview env' e rid payload pf (run env calls init) \<noteq> Inl NotFound \<and>
    (isVerified (reviews (employees (run env calls init) e) rid) \<longrightarrow>
       verifyReview env' e rid payload pf (run env calls init) = Inl AlreadyVerified) \<and>
    (\<not> isVerified (reviews (employees (run env calls init) e) rid) \<and>
     \<not> checkSignatures env' [0] payload pf \<longrightarrow>
       verifyReview env' e rid payload pf (run env calls init) = Inl InvalidProof) \<and>
    (\<not> isVerified (reviews (employees (run env calls init) e) rid) \<and>
     checkSignatures env' [0] payload pf \<and> abi_decode_uint32 payload \<noteq> None \<and>
     unat (reviewCount (employees (run env calls init) e)) + 1 < 2 ^ 256 \<longrightarrow>
       (\<exists>s'. verifyReview env' e rid payload pf (run env calls init) = Inr s')) \<and>
    (\<forall>s'. verifyReview env' e rid payload pf (run env calls init) = Inr s' \<longrightarrow>
       totalScore (employees s' e) = totalScore (employees (run env calls init) e) \<and>
       unat (reviewCount (employees s' e)) =
         unat (reviewCount (employees (run env calls init) e)) + 1 \<and>
       isVerified (reviews (employees s' e) rid)) \<and>
    (\<forall>err. verifyReview env' e rid payload pf (run env calls init) = Inl err \<longrightarrow>
       step env' (VerifyReview e rid payload pf) (run env calls init) = run env calls init)"
proof -
  let ?s = "run env calls init"
  from blank_run [OF assms(1)] blank_init
  have w: "weight (reviews (employees ?s e) rid) = 0"
    and h: "encryptedScore (reviews (employees ?s e) rid) = 0"
    by simp_all
  have 1: "verifyReview env' e rid payload pf ?s \<noteq> Inl NotFound"
    using assms(2) by (simp add: verifyReview_def Let_def checked_mul_def checked_add_def
        split: option.splits)
  have 2: "isVerified (reviews (employees ?s e) rid) \<longrightarrow>
       verifyReview env' e rid payload pf ?s = Inl AlreadyVerified"
    using assms(2) by (simp add: verifyReview_def)
  have 3: "\<not> isVerified (reviews (employees ?s e) rid) \<and>
     \<not> checkSignatures env' [0] payload pf \<longrightarrow>
       verifyReview env' e rid payload pf ?s = Inl InvalidProof"
    using assms(2) h by (simp add: verifyReview_def)
  have 4: "\<not> isVerified (reviews (employees ?s e) rid) \<and>
     checkSignatures env' [0] payload pf \<and> abi_decode_uint32 payload \<noteq> None \<and>
     unat (reviewCount (employees ?s e)) + 1 < 2 ^ 256 \<longrightarrow>
       (\<exists>s'. verifyReview env' e rid payload pf ?s = Inr s')"
    using assms(2) h w unsigned_less [of "totalScore (employees ?s e)", where 'a=nat]
    by (auto simp: verifyReview_def Let_def checked_mul_def checked_add_def)
  have 5: "\<forall>s'. verifyReview env' e rid payload pf ?s = Inr s' \<longrightarrow>
       totalScore (employees s' e) = totalScore (employees ?s e) \<and>
       unat (reviewCount (employees s' e)) = unat (reviewCount (employees ?s e)) + 1 \<and>
       isVerified (reviews (employees s' e) rid)"
  proof (intro allI impI)
    fix s' assume a: "verifyReview env' e rid payload pf ?s = Inr s'"
    then show "totalScore (employees s' e) = totalScore (employees ?s e) \<and>
       unat (reviewCount (employees s' e)) = unat (reviewCount (employees ?s e)) + 1 \<and>
       isVerified (reviews (employees s' e) rid)"
      using w
      by (elim verifyReview_InrE)
         (auto simp: checked_mul_def checked_add_def unat_word_ariths split: if_splits)
  qed
  have 6: "\<forall>err. verifyReview env' e rid payload pf ?s = Inl err \<longrightarrow>
       step env' (VerifyReview e rid payload pf) ?s = ?s"
    by (simp add: step_def)
  from 1 2 3 4 5 6 show ?thesis by blast
qed

text \<open>
  The theorem at employee \<open>E1\<close> without any review and the identifier \<open>R0\<close>: accepted
  and rejected by the two stand-ins, and refused after the accepted call.
\<close>

theorem verifyReview_never_submitted_witness:
  "neverSubmitted acceptAll ''E1'' ''R0'' employeeOnly init \<and>
   employeeExists (run acceptAll employeeOnly init) ''E1'' \<and>
   \<not> isVerified (reviews (employees (run acceptAll employeeOnly init) ''E1'') ''R0'') \<and>
   checkSignatures acceptAll [0] (abi_encode_uint32 8) [] \<and>
   abi_decode_uint32 (abi_encode_uint32 8) \<noteq> None \<and>
   unat (reviewCount (employees (run acceptAll employeeOnly init) ''E1'')) + 1 < 2 ^ 256 \<and>
   (\<exists>s'. verifyReview acceptAll ''E1'' ''R0'' (abi_encode_uint32 8) []
      (run acceptAll employeeOnly init) = Inr s' \<and>
      totalScore (employees s' ''E1'') = 0 \<and>
      unat (reviewCount (employees s' ''E1'')) = 1 \<and>
      isVerified (reviews (employees s' ''E1'') ''R0'')) \<and>
   \<not> checkSignatures rejectAll [0] (abi_encode_uint32 8) [] \<and>
   verifyReview rejectAll ''E1'' ''R0'' (abi_encode_uint32 8) []
     (run acceptAll employeeOnly init) = Inl InvalidProof \<and>
   neverSubmitted acceptAll ''E1'' ''R0'' phantomVerified init \<and>
   employeeExists (run acceptAll phantomVerified init) ''E1'' \<and>
   isVerified (reviews (employees (run acceptAll phantomVerified init) ''E1'') ''R0'') \<and>
   verifyReview acceptAll ''E1'' ''R0'' (abi_encode_uint32 8) []
     (run acceptAll phantomVerified init) = Inl AlreadyVerified"
proof -
  have a1: "neverSubmitted acceptAll ''E1'' ''R0'' employeeOnly init"
    by (simp add: employeeOnly_def run_defs)
  have a2: "employeeExists (run acceptAll employeeOnly init) ''E1''"
    by (simp add: employeeOnly_def run_defs)
  have b: "\<not> isVerified (reviews (employees (run acceptAll employeeOnly init) ''E1'') ''R0'') \<and>
      checkSignatures acceptAll [0] (abi_encode_uint32 8) [] \<and>
      abi_decode_uint32 (abi_encode_uint32 8) \<noteq> None \<and>
      unat (reviewCount (employees (run acceptAll employeeOnly init) ''E1'')) + 1 < 2 ^ 256"
    by (simp add: employeeOnly_def run_defs abi_decode_8)
  have t0: "totalScore (employees (run acceptAll employeeOnly init) ''E1'') = 0 \<and>
      unat (reviewCount (employees (run acceptAll employeeOnly init) ''E1'')) = 0"
    by (simp add: employeeOnly_def run_defs)
  have c: "\<not> checkSignatures rejectAll [0] (abi_encode_uint32 8) []"
    by (simp add: rejectAll_def)
  have d1: "neverSubmitted acceptAll ''E1'' ''R0'' phantomVerified init"
    by (simp add: phantomVerified_def employeeOnly_def run_defs)
  have d2: "employeeExists (run acceptAll phantomVerified init) ''E1''"
    by (simp add: phantomVerified_def employeeOnly_def run_defs abi_decode_8)
  have d3: "isVerified (reviews (employees (run acceptAll phantomVerified init) ''E1'') ''R0'')"
    by (simp add: phantomVerified_def employeeOnly_def run_defs abi_decode_8)
  note acc = verifyReview_never_submitted [OF a1 a2, of acceptAll "abi_encode_uint32 8" "[]"]
  note rej = verifyReview_never_submitted [OF a1 a2, of rejectAll "abi_encode_uint32 8" "[]"]
  note again = verifyReview_never_submitted [OF d1 d2, of acceptAll "abi_encode_uint32 8" "[]"]
  from acc b obtain s' where s': "verifyReview acceptAll ''E1'' ''R0'' (abi_encode_uint32 8) []
      (run acceptAll employeeOnly init) = Inr s'"
    by blast
  with acc t0 have e: "totalScore (employees s' ''E1'') = 0 \<and>
      unat (reviewCount (employees s' ''E1'')) = 1 \<and>
      isVerified (reviews (employees s' ''E1'') ''R0'')"
    by simp
  from rej b c have r: "verifyReview rejectAll ''E1'' ''R0'' (abi_encode_uint32 8) []
     (run acceptAll employeeOnly init) = Inl InvalidProof"
    by blast
  from again d3 have g: "verifyReview acceptAll ''E1'' ''R0'' (abi_encode_uint32 8) []
     (run acceptAll phantomVerified init) = Inl AlreadyVerified"
    by blast
  from a1 a2 b s' e c r d1 d2 d3 g show ?thesis by blast
qed

text \<open>
  C3 as stated fails: for employee \<open>E1\<close> and the identifier \<open>R0\<close>, which no submission
  derives, \<open>verifyReview\<close> on the accepting stand-in succeeds and \<open>reviewCount\<close> goes
  from 0 to 1, and on the rejecting stand-in it fails with \<open>InvalidProof\<close>; neither
  fails with \<open>NotFound\<close>.
\<close>

theorem verifyReview_missing_review_not_NotFound:
  "employeeExists (run acceptAll employeeOnly init) ''E1'' \<and>
   reviews (employees (run acceptAll employeeOnly init) ''E1'') ''R0'' = zeroReview \<and>
   verifyReview acceptAll ''E1'' ''R0'' (abi_encode_uint32 8) []
     (run acceptAll employeeOnly init) \<noteq> Inl NotFound \<and>
   reviewCount (employees (run acceptAll employeeOnly init) ''E1'') = 0 \<and>
   reviewCount (employees (step acceptAll (VerifyReview ''E1'' ''R0'' (abi_encode_uint32 8) [])
     (run acceptAll employeeOnly init)) ''E1'') = 1 \<and>
   verifyReview rejectAll ''E1'' ''R0'' (abi_encode_uint32 8) []
     (run acceptAll employeeOnly init) = Inl InvalidProof"
  by (simp add: employeeOnly_def run_defs abi_decode_8)

subsection \<open>C2: reviewCount counts the verified reviews\<close>

text \<open>
  C2, as the code has it. After every sequence of calls from the fresh contract in which
  no successful \<open>submitReview\<close> derives the identifier of a review that is verified at
  that moment, each employee's \<open>reviewCount\<close> equals the number of that employee's
  reviews whose \<open>isVerified\<close> flag is set.
\<close>

theorem reviewCount_counts_verified:
  assumes "noOverwrite env calls init"
  shows "unat (reviewCount (employees (run env calls init) e)) =
         card (verifiedIds (run env calls init) e)"
proof -
  have "\<forall>e. unat (reviewCount (employees init e)) = card (verifiedIds init e)"
    by (simp add: init_def zeroEmployee_def zeroReview_def verifiedIds_def)
  with storageOk_init
  have "\<forall>e. unat (reviewCount (employees (run env calls init) e)) =
      card (verifiedIds (run env calls init) e)"
    using assms by (rule count_run)
  then show ?thesis by simp
qed

text \<open>The theorem at the scenario with two verified reviews.\<close>

theorem reviewCount_counts_verified_witness:
  "noOverwrite acceptAll twoReviews init \<and>
   unat (reviewCount (employees (run acceptAll twoReviews init) ''E1'')) = 2 \<and>
   card (verifiedIds (run acceptAll twoReviews init) ''E1'') = 2"
proof -
  have h: "noOverwrite acceptAll twoReviews init"
    by (simp add: demo_defs run_defs)
  have c: "unat (reviewCount (employees (run acceptAll twoReviews init) ''E1'')) = 2"
    by (simp add: demo_defs run_defs)
  from reviewCount_counts_verified [OF h, of "''E1''"] h c show ?thesis by simp
qed

text \<open>
  C2 as stated fails: after the first review of the scenario is verified, a second
  submission in the same block timestamp writes a pending review over it; the employee
  has \<open>reviewCount\<close> 1 and no verified review.
\<close>

theorem reviewCount_after_overwrite:
  "unat (reviewCount (employees (run acceptAll resubmitted init) ''E1'')) = 1 \<and>
   verifiedIds (run acceptAll resubmitted init) ''E1'' = {} \<and>
   unat (reviewCount (employees (run acceptAll resubmitted init) ''E1'')) \<noteq>
     card (verifiedIds (run acceptAll resubmitted init) ''E1'')"
  by (simp add: resubmitted_def demo_defs run_defs verifiedIds_def)

subsection \<open>C6: totalScore is the weighted sum of the verified reviews\<close>

text \<open>
  C6, as the code has it. After every sequence of calls from the fresh contract that
  holds no \<open>calculateFinalScore\<close> for an employee, and in which no successful
  \<open>submitReview\<close> derives the identifier of a review that is verified at that moment,
  that employee's \<open>totalScore\<close> equals the sum, over the employee's verified reviews,
  of \<open>decryptedScore\<close> times \<open>weight\<close>.
\<close>

theorem totalScore_is_verified_sum:
  assumes "noOverwrite env calls init" and "\<not> list_ex (finalizes e) calls"
  shows "unat (totalScore (employees (run env calls init) e)) =
         verifiedSum (run env calls init) e"
proof -
  have "unat (totalScore (employees init e)) = verifiedSum init e"
    by (simp add: init_def zeroEmployee_def zeroReview_def verifiedSum_def verifiedIds_def)
  with storageOk_init show ?thesis using assms by (rule sum_run)
qed

text \<open>The theorem at the scenario with two verified reviews: 8 * 2 + 6 * 3.\<close>

theorem totalScore_is_verified_sum_witness:
  "noOverwrite acceptAll twoReviews init \<and>
   \<not> list_ex (finalizes ''E1'') twoReviews \<and>
   unat (totalScore (employees (run acceptAll twoReviews init) ''E1'')) = 34 \<and>
   verifiedSum (run acceptAll twoReviews init) ''E1'' = 34"
proof -
  have h1: "noOverwrite acceptAll twoReviews init"
    by (simp add: demo_defs run_defs)
  have h2: "\<not> list_ex (finalizes ''E1'') twoReviews"
    by (simp add: demo_defs)
  have c: "unat (totalScore (employees (run acceptAll twoReviews init) ''E1'')) = 34"
    by (simp add: demo_defs run_defs)
  from totalScore_is_verified_sum [OF h1 h2] h1 h2 c show ?thesis by simp
qed

text \<open>
  C6 as stated fails: no \<open>calculateFinalScore\<close> is called, the second submission in the
  block timestamp of the first writes a pending review over the verified one, and the
  employee keeps \<open>totalScore\<close> 16 with no verified review to sum over.
\<close>

theorem totalScore_after_overwrite:
  "\<not> list_ex (finalizes ''E1'') resubmitted \<and>
   unat (totalScore (employees (run acceptAll resubmitted init) ''E1'')) = 16 \<and>
   verifiedSum (run acceptAll resubmitted init) ''E1'' = 0 \<and>
   unat (totalScore (employees (run acceptAll resubmitted init) ''E1'')) \<noteq>
     verifiedSum (run acceptAll resubmitted init) ''E1''"
  by (simp add: resubmitted_def demo_defs run_defs verifiedSum_def verifiedIds_def)

subsection \<open>C1: an accepted verification\<close>

text \<open>
  C1, as the code has it. For every existing employee and every review of that employee
  whose \<open>isVerified\<close> flag is not set, take a \<open>verifyReview\<close> call whose attestation
  the library accepts and whose payload decodes to the claimed clear value. When
  \<open>totalScore + clearValue * weight\<close> and \<open>reviewCount + 1\<close> fit 256 bits, the call
  succeeds: it sets the review's \<open>decryptedScore\<close> to the clear value and its
  \<open>isVerified\<close> flag, adds \<open>clearValue * weight\<close> to the employee's \<open>totalScore\<close>
  and 1 to \<open>reviewCount\<close>. When one of them does not fit, checked arithmetic reverts
  the call with a panic, and the storage after the call, the pending review included,
  is the storage before it. In particular, after \<open>addEmployee("E1")\<close>, one
  \<open>submitReview\<close> with weight 2 and one \<open>verifyReview\<close> of that review with the clear
  value 8, for every library that accepts both, \<open>totalScore\<close> is 16 and
  \<open>reviewCount\<close> is 1.
\<close>

theorem verifyReview_accepted:
  "(\<forall>(env::fhe) (s::contract) eid rid payload pf v.
      employeeExists s eid \<and>
      \<not> isVerified (reviews (employees s eid) rid) \<and>
      checkSignatures env [encryptedScore (reviews (employees s eid) rid)] payload pf \<and>
      abi_decode_uint32 payload = Some v \<and>
      unat (totalScore (employees s eid)) +
        unat v * unat (weight (reviews (employees s eid) rid)) < 2 ^ 256 \<and>
      unat (reviewCount (employees s eid)) + 1 < 2 ^ 256 \<longrightarrow>
      (\<exists>s'. verifyReview env eid rid payload pf s = Inr s' \<and>
         decryptedScore (reviews (employees s' eid) rid) = v \<and>
         isVerified (reviews (employees s' eid) rid) \<and>
         unat (totalScore (employees s' eid)) =
           unat (totalScore (employees s eid)) +
           unat v * unat (weight (reviews (employees s eid) rid)) \<and>
         unat (reviewCount (employees s' eid)) =
           unat (reviewCount (employees s eid)) + 1)) \<and>
   (\<forall>(env::fhe) (s::contract) eid rid payload pf v.
         employeeExists s eid \<and>
         \<not> isVerified (reviews (employees s eid) rid) \<and>
         checkSignatures env [encryptedScore (reviews (employees s eid) rid)] payload pf \<and>
         abi_decode_uint32 payload = Some v \<and>
         \<not> (unat (totalScore (employees s eid)) +
              unat v * unat (weight (reviews (employees s eid) rid)) < 2 ^ 256 \<and>
            unat (reviewCount (employees s eid)) + 1 < 2 ^ 256) \<longrightarrow>
         verifyReview env eid rid payload pf s = Inl ArithmeticPanic \<and>
         step env (VerifyReview eid rid payload pf) s = s) \<and>
   (\<forall>(env::fhe) nm dept sender ts ext ipf h payload pf.
      fromExternal env ext ipf sender = Some h \<and> h \<noteq> 0 \<and>
      checkSignatures env [h] payload pf \<and> abi_decode_uint32 payload = Some 8 \<longrightarrow>
      totalScore (employees (run env
        [AddEmployee ''E1'' nm dept,
         SubmitReview sender ts ''E1'' ext ipf 2 dept,
         VerifyReview ''E1'' (reviewIdOf ''E1'' ts) payload pf] init) ''E1'') = 16 \<and>
      reviewCount (employees (run env
        [AddEmployee ''E1'' nm dept,
         SubmitReview sender ts ''E1'' ext ipf 2 dept,
         VerifyReview ''E1'' (reviewIdOf ''E1'' ts) payload pf] init) ''E1'') = 1)"
proof (intro conjI)
  show "\<forall>(env::fhe) (s::contract) eid rid payload pf v.
      employeeExists s eid \<and>
      \<not> isVerified (reviews (employees s eid) rid) \<and>
      checkSignatures env [encryptedScore (reviews (employees s eid) rid)] payload pf \<and>
      abi_decode_uint32 payload = Some v \<and>
      unat (totalScore (employees s eid)) +
        unat v * unat (weight (reviews (employees s eid) rid)) < 2 ^ 256 \<and>
      unat (reviewCount (employees s eid)) + 1 < 2 ^ 256 \<longrightarrow>
      (\<exists>s'. verifyReview env eid rid payload pf s = Inr s' \<and>
         decryptedScore (reviews (employees s' eid) rid) = v \<and>
         isVerified (reviews (employees s' eid) rid) \<and>
         unat (totalScore (employees s' eid)) =
           unat (totalScore (employees s eid)) +
           unat v * unat (weight (reviews (employees s eid) rid)) \<and>
         unat (reviewCount (employees s' eid)) =
           unat (reviewCount (employees s eid)) + 1)"
  proof (intro allI impI, elim conjE)
    fix env :: fhe and s :: contract and eid rid payload pf v
    let ?e = "employees s eid"
    let ?r = "reviews ?e rid"
    assume ex: "employeeExists s eid" and nv: "\<not> isVerified ?r"
      and sig: "checkSignatures env [encryptedScore ?r] payload pf"
      and dec: "abi_decode_uint32 payload = Some v"
      and fit: "unat (totalScore ?e) + unat v * unat (weight ?r) < 2 ^ 256"
      and cnt: "unat (reviewCount ?e) + 1 < 2 ^ 256"
    from fit have pm: "unat (ucast v :: uint256) * unat (weight ?r) < 2 ^ 256"
      by (simp add: unat_ucast_u32)
    then have m: "checked_mul (ucast v) (weight ?r) = Some (ucast v * weight ?r)"
      by (simp add: checked_mul_def)
    from m have um: "unat (ucast v * weight ?r) = unat v * unat (weight ?r)"
      by (simp add: checked_mul_Some unat_ucast_u32)
    with fit have a: "checked_add (totalScore ?e) (ucast v * weight ?r) =
        Some (totalScore ?e + ucast v * weight ?r)"
      by (simp add: checked_add_def)
    from cnt have c: "checked_add (reviewCount ?e) 1 = Some (reviewCount ?e + 1)"
      by (simp add: checked_add_def)
    from a um have ua: "unat (totalScore ?e + ucast v * weight ?r) =
        unat (totalScore ?e) + unat v * unat (weight ?r)"
      by (simp add: checked_add_Some)
    from c have uc: "unat (reviewCount ?e + 1) = unat (reviewCount ?e) + 1"
      by (simp add: checked_add_Some)
    from ex nv sig dec m a c
    have "verifyReview env eid rid payload pf s =
        Inr (s\<lparr>employees := (employees s)
          (eid := ?e\<lparr>totalScore := totalScore ?e + ucast v * weight ?r,
             reviewCount := reviewCount ?e + 1,
             reviews := (reviews ?e)(rid := ?r\<lparr>decryptedScore := v, isVerified := True\<rparr>)\<rparr>)\<rparr>)"
      by (simp add: verifyReview_def Let_def)
    with ua uc show "\<exists>s'. verifyReview env eid rid payload pf s = Inr s' \<and>
         decryptedScore (reviews (employees s' eid) rid) = v \<and>
         isVerified (reviews (employees s' eid) rid) \<and>
         unat (totalScore (employees s' eid)) =
           unat (totalScore ?e) + unat v * unat (weight ?r) \<and>
         unat (reviewCount (employees s' eid)) = unat (reviewCount ?e) + 1"
      by simp
  qed
next
  show "\<forall>(env::fhe) (s::contract) eid rid payload pf v.
      employeeExists s eid \<and>
      \<not> isVerified (reviews (employees s eid) rid) \<and>
      checkSignatures env [encryptedScore (reviews (employees s eid) rid)] payload pf \<and>
      abi_decode_uint32 payload = Some v \<and>
      \<not> (unat (totalScore (employees s eid)) +
           unat v * unat (weight (reviews (employees s eid) rid)) < 2 ^ 256 \<and>
         unat (reviewCount (employees s eid)) + 1 < 2 ^ 256) \<longrightarrow>
      verifyReview env eid rid payload pf s = Inl ArithmeticPanic \<and>
      step env (VerifyReview eid rid payload pf) s = s"
  proof (intro allI impI, elim conjE)
    fix env :: fhe and s :: contract and eid rid payload pf v
    let ?e = "employees s eid"
    let ?r = "reviews ?e rid"
    assume ex: "employeeExists s eid" and nv: "\<not> isVerified ?r"
      and sig: "checkSignatures env [encryptedScore ?r] payload pf"
      and dec: "abi_decode_uint32 payload = Some v"
      and over: "\<not> (unat (totalScore ?e) + unat v * unat (weight ?r) < 2 ^ 256 \<and>
         unat (reviewCount ?e) + 1 < 2 ^ 256)"
    have panic: "verifyReview env eid rid payload pf s = Inl ArithmeticPanic"
    proof (cases "unat v * unat (weight ?r) < 2 ^ 256")
      case False
      then have "checked_mul (ucast v) (weight ?r) = None"
        by (simp add: checked_mul_def unat_ucast_u32)
      with ex nv sig dec show ?thesis by (simp add: verifyReview_def Let_def)
    next
      case True
      then have m: "checked_mul (ucast v) (weight ?r) = Some (ucast v * weight ?r)"
        by (simp add: checked_mul_def unat_ucast_u32)
      then have um: "unat (ucast v * weight ?r) = unat v * unat (weight ?r)"
        by (simp add: checked_mul_Some unat_ucast_u32)
      show ?thesis
      proof (cases "unat (totalScore ?e) + unat v * unat (weight ?r) < 2 ^ 256")
        case False
        with um have "checked_add (totalScore ?e) (ucast v * weight ?r) = None"
          by (simp add: checked_add_def)
        with ex nv sig dec m show ?thesis by (simp add: verifyReview_def Let_def)
      next
        case True
        with um have a: "checked_add (totalScore ?e) (ucast v * weight ?r) =
            Some (totalScore ?e + ucast v * weight ?r)"
          by (simp add: checked_add_def)
        from True over have "\<not> unat (reviewCount ?e) + 1 < 2 ^ 256" by simp
        then have "checked_add (reviewCount ?e) 1 = None"
          by (simp add: checked_add_def)
        with ex nv sig dec m a show ?thesis by (simp add: verifyReview_def Let_def)
      qed
    qed
    then show "verifyReview env eid rid payload pf s = Inl ArithmeticPanic \<and>
        step env (VerifyReview eid rid payload pf) s = s"
      by (simp add: step_def)
  qed
next
  show "\<forall>(env::fhe) nm dept sender ts ext ipf h payload pf.
      fromExternal env ext ipf sender = Some h \<and> h \<noteq> 0 \<and>
      checkSignatures env [h] payload pf \<and> abi_decode_uint32 payload = Some 8 \<longrightarrow>
      totalScore (employees (run env
        [AddEmployee ''E1'' nm dept,
         SubmitReview sender ts ''E1'' ext ipf 2 dept,
         VerifyReview ''E1'' (reviewIdOf ''E1'' ts) payload pf] init) ''E1'') = 16 \<and>
      reviewCount (employees (run env
        [AddEmployee ''E1'' nm dept,
         SubmitReview sender ts ''E1'' ext ipf 2 dept,
         VerifyReview ''E1'' (reviewIdOf ''E1'' ts) payload pf] init) ''E1'') = 1"
    by (intro allI impI) (simp add: run_defs)
qed

text \<open>
  The theorem at the pending review of the scenario, at the scenario on the accepting
  stand-in, and at a pending review of weight \<open>2 ^ 255\<close> with the clear value 2.
\<close>

theorem verifyReview_accepted_witness:
  "employeeExists (run acceptAll (butlast oneReview) init) ''E1'' \<and>
   \<not> isVerified (reviews (employees (run acceptAll (butlast oneReview) init) ''E1'')
        (reviewIdOf ''E1'' 100)) \<and>
   checkSignatures acceptAll
     [encryptedScore (reviews (employees (run acceptAll (butlast oneReview) init) ''E1'')
        (reviewIdOf ''E1'' 100))] (abi_encode_uint32 8) [] \<and>
   abi_decode_uint32 (abi_encode_uint32 8) = Some 8 \<and>
   unat (totalScore (employees (run acceptAll (butlast oneReview) init) ''E1'')) = 0 \<and>
   unat (weight (reviews (employees (run acceptAll (butlast oneReview) init) ''E1'')
        (reviewIdOf ''E1'' 100))) = 2 \<and>
   unat (reviewCount (employees (run acceptAll (butlast oneReview) init) ''E1'')) = 0 \<and>
   (\<exists>s'. verifyReview acceptAll ''E1'' (reviewIdOf ''E1'' 100) (abi_encode_uint32 8) []
        (run acceptAll (butlast oneReview) init) = Inr s' \<and>
      decryptedScore (reviews (employees s' ''E1'') (reviewIdOf ''E1'' 100)) = 8 \<and>
      isVerified (reviews (employees s' ''E1'') (reviewIdOf ''E1'' 100)) \<and>
      unat (totalScore (employees s' ''E1'')) = 16 \<and>
      unat (reviewCount (employees s' ''E1'')) = 1) \<and>
   fromExternal acceptAll 5 [] 7 = Some 5 \<and>
   totalScore (employees (run acceptAll oneReview init) ''E1'') = 16 \<and>
   reviewCount (employees (run acceptAll oneReview init) ''E1'') = 1 \<and>
   employeeExists (run acceptAll heavyReview init) ''E1'' \<and>
   \<not> isVerified (reviews (employees (run acceptAll heavyReview init) ''E1'')
        (reviewIdOf ''E1'' 100)) \<and>
   checkSignatures acceptAll
     [encryptedScore (reviews (employees (run acceptAll heavyReview init) ''E1'')
        (reviewIdOf ''E1'' 100))] (abi_encode_uint32 2) [] \<and>
   abi_decode_uint32 (abi_encode_uint32 2) = Some 2 \<and>
   \<not> (unat (totalScore (employees (run acceptAll heavyReview init) ''E1'')) +
        unat (2 :: uint32) *
        unat (weight (reviews (employees (run acceptAll heavyReview init) ''E1'')
          (reviewIdOf ''E1'' 100))) < 2 ^ 256 \<and>
      unat (reviewCount (employees (run acceptAll heavyReview init) ''E1'')) + 1 < 2 ^ 256) \<and>
   verifyReview acceptAll ''E1'' (reviewIdOf ''E1'' 100) (abi_encode_uint32 2) []
     (run acceptAll heavyReview init) = Inl ArithmeticPanic \<and>
   step acceptAll (VerifyReview ''E1'' (reviewIdOf ''E1'' 100) (abi_encode_uint32 2) [])
     (run acceptAll heavyReview init) = run acceptAll heavyReview init"
proof -
  let ?s = "run acceptAll (butlast oneReview) init"
  have h: "employeeExists ?s ''E1'' \<and>
      \<not> isVerified (reviews (employees ?s ''E1'') (reviewIdOf ''E1'' 100)) \<and>
      checkSignatures acceptAll
        [encryptedScore (reviews (employees ?s ''E1'') (reviewIdOf ''E1'' 100))]
        (abi_encode_uint32 8) [] \<and>
      abi_decode_uint32 (abi_encode_uint32 8) = Some 8"
    by (simp add: demo_defs run_defs)
  have v: "unat (totalScore (employees ?s ''E1'')) = 0 \<and>
      unat (weight (reviews (employees ?s ''E1'') (reviewIdOf ''E1'' 100))) = 2 \<and>
      unat (reviewCount (employees ?s ''E1'')) = 0"
    by (simp add: demo_defs run_defs)
  have u8: "unat (8 :: uint32) = 8" by simp
  from v u8 have fit: "unat (totalScore (employees ?s ''E1'')) +
        unat (8 :: uint32) * unat (weight (reviews (employees ?s ''E1'') (reviewIdOf ''E1'' 100)))
        < 2 ^ 256 \<and>
      unat (reviewCount (employees ?s ''E1'')) + 1 < 2 ^ 256"
    by simp
  from verifyReview_accepted [THEN conjunct1, rule_format, of ?s "''E1''" "reviewIdOf ''E1'' 100"
      acceptAll "abi_encode_uint32 8" "[]" 8] h fit
  obtain s' where s': "verifyReview acceptAll ''E1'' (reviewIdOf ''E1'' 100) (abi_encode_uint32 8) []
        ?s = Inr s' \<and>
      decryptedScore (reviews (employees s' ''E1'') (reviewIdOf ''E1'' 100)) = 8 \<and>
      isVerified (reviews (employees s' ''E1'') (reviewIdOf ''E1'' 100)) \<and>
      unat (totalScore (employees s' ''E1'')) =
        unat (totalScore (employees ?s ''E1'')) +
        unat (8 :: uint32) * unat (weight (reviews (employees ?s ''E1'') (reviewIdOf ''E1'' 100))) \<and>
      unat (reviewCount (employees s' ''E1'')) = unat (reviewCount (employees ?s ''E1'')) + 1"
    by blast
  with v u8 have e: "\<exists>s'. verifyReview acceptAll ''E1'' (reviewIdOf ''E1'' 100)
        (abi_encode_uint32 8) [] ?s = Inr s' \<and>
      decryptedScore (reviews (employees s' ''E1'') (reviewIdOf ''E1'' 100)) = 8 \<and>
      isVerified (reviews (employees s' ''E1'') (reviewIdOf ''E1'' 100)) \<and>
      unat (totalScore (employees s' ''E1'')) = 16 \<and>
      unat (reviewCount (employees s' ''E1'')) = 1"
    by (intro exI [of _ s']) simp
  have f: "fromExternal acceptAll 5 [] 7 = Some 5 \<and> (5::uint256) \<noteq> 0 \<and>
      checkSignatures acceptAll [5] (abi_encode_uint32 8) [] \<and>
      abi_decode_uint32 (abi_encode_uint32 8) = Some 8"
    by (simp add: acceptAll_def demo_defs)
  from verifyReview_accepted [THEN conjunct2, THEN conjunct2, rule_format, OF f,
      of "''Alice''" 10 100]
  have sc: "totalScore (employees (run acceptAll oneReview init) ''E1'') = 16 \<and>
      reviewCount (employees (run acceptAll oneReview init) ''E1'') = 1"
    by (simp add: oneReview_def)
  let ?t = "run acceptAll heavyReview init"
  have g: "employeeExists ?t ''E1'' \<and>
      \<not> isVerified (reviews (employees ?t ''E1'') (reviewIdOf ''E1'' 100)) \<and>
      checkSignatures acceptAll
        [encryptedScore (reviews (employees ?t ''E1'') (reviewIdOf ''E1'' 100))]
        (abi_encode_uint32 2) [] \<and>
      abi_decode_uint32 (abi_encode_uint32 2) = Some 2"
    by (simp add: heavyReview_def demo_defs run_defs)
  have w: "unat (weight (reviews (employees ?t ''E1'') (reviewIdOf ''E1'' 100))) = 2 ^ 255"
    by (simp add: heavyReview_def demo_defs run_defs)
  have u2: "unat (2 :: uint32) = 2" by simp
  have over: "\<not> (unat (totalScore (employees ?t ''E1'')) +
        unat (2 :: uint32) *
        unat (weight (reviews (employees ?t ''E1'') (reviewIdOf ''E1'' 100))) < 2 ^ 256 \<and>
      unat (reviewCount (employees ?t ''E1'')) + 1 < 2 ^ 256)"
    unfolding w u2 by simp
  from verifyReview_accepted [THEN conjunct2, THEN conjunct1, rule_format,
      of ?t "''E1''" "reviewIdOf ''E1'' 100" acceptAll "abi_encode_uint32 2" "[]" 2] g over
  have p: "verifyReview acceptAll ''E1'' (reviewIdOf ''E1'' 100) (abi_encode_uint32 2) [] ?t =
        Inl ArithmeticPanic \<and>
      step acceptAll (VerifyReview ''E1'' (reviewIdOf ''E1'' 100) (abi_encode_uint32 2) []) ?t = ?t"
    by blast
  from h v e f sc g over p show ?thesis by simp
qed

text \<open>
  C1 as stated fails: the pending review has weight \<open>2 ^ 255\<close>, the attestation for the
  clear value 2 is accepted, and the product overflows 256 bits; the call reverts and
  the review stays pending.
\<close>

theorem verifyReview_overflow:
  "employeeExists (run acceptAll heavyReview init) ''E1'' \<and>
   \<not> isVerified (reviews (employees (run acceptAll heavyReview init) ''E1'')
        (reviewIdOf ''E1'' 100)) \<and>
   weight (reviews (employees (run acceptAll heavyReview init) ''E1'')
        (reviewIdOf ''E1'' 100)) = 2 ^ 255 \<and>
   checkSignatures acceptAll
     [encryptedScore (reviews (employees (run acceptAll heavyReview init) ''E1'')
        (reviewIdOf ''E1'' 100))] (abi_encode_uint32 2) [] \<and>
   abi_decode_uint32 (abi_encode_uint32 2) = Some 2 \<and>
   verifyReview acceptAll ''E1'' (reviewIdOf ''E1'' 100) (abi_encode_uint32 2) []
     (run acceptAll heavyReview init) = Inl ArithmeticPanic \<and>
   \<not> isVerified (reviews (employees (step acceptAll
        (VerifyReview ''E1'' (reviewIdOf ''E1'' 100) (abi_encode_uint32 2) [])
        (run acceptAll heavyReview init)) ''E1'') (reviewIdOf ''E1'' 100))"
  by (simp add: heavyReview_def demo_defs run_defs)

end
